theory Spec2Isabelle
  imports Complex_Main "HOL-Library.AList" "HOL-Library.Char_ord" "HOL-Library.List_Lexorder"
begin

section \<open>Data model of the trading agent\<close>

text \<open>
  The agent of \<^verbatim>\<open>agent_v2/langgraph_trading_agent.py\<close> keeps its portfolio in Python
  dictionaries. A dictionary used as a struct is a record here; a key that the source
  reads with \<^verbatim>\<open>.get\<close> (so that it may be absent) is an \<open>option\<close> field, \<open>None\<close>
  standing for the absent key. Money is a Python float in the source and a \<open>real\<close>
  here: the arithmetic is modelled exactly, without the rounding of binary floating
  point. Share amounts and day counts are Python integers, \<open>int\<close> here.

  Literals of the source that are not ASCII (placeholder texts for an unknown stock name,
  a missing reason, an exit plan that was not set) are named constants.
\<close>

datatype py_error = KeyError | ZeroDivisionError | ValueError

type_synonym addr = nat

definition not_set :: string where
  "not_set = ''<not set>''"

definition unknown_name :: string where
  "unknown_name = ''<unknown>''"

definition default_sell_reason :: string where
  "default_sell_reason = ''<AI sell decision>''"

definition default_buy_reason :: string where
  "default_buy_reason = ''<AI buy decision>''"

text \<open>
  A holding is the inner dictionary \<^verbatim>\<open>holdings[code]\<close>. The keys \<^verbatim>\<open>amount\<close> and
  \<^verbatim>\<open>cost\<close> are read with \<^verbatim>\<open>[...]\<close> everywhere and written by every place that
  creates a holding; the other keys are read with \<^verbatim>\<open>.get\<close> or written by only one of
  the two places that create holdings (\<^verbatim>\<open>_execute_buys\<close> and the replay of
  \<^verbatim>\<open>rollback_to_date\<close>). \<open>h_buy_date\<close> stands for the two keys \<^verbatim>\<open>date\<close> and
  \<^verbatim>\<open>buy_date\<close>, which always hold the same value.
\<close>

record holding =
  h_amount :: int
  h_cost :: real
  h_price :: "real option"
  h_current_price :: "real option"
  h_profit_pct :: "real option"
  h_hold_days :: "int option"
  h_buy_date :: "string option"
  h_name :: "string option"
  h_profit_target :: "string option"
  h_stop_loss :: "string option"
  h_invalidation :: "string option"
  h_expected_days :: "int option"

text \<open>
  A trade is a dictionary appended to \<^verbatim>\<open>trade_history\<close>. The fields are the keys that
  the source writes or reads on a trade; \<open>t_stamp_tax\<close> is the key \<^verbatim>\<open>stamp_tax\<close> of the
  specification's fee model, which no dictionary literal of the source sets. The key
  \<^verbatim>\<open>time\<close> (the wall clock at the moment of the fill) is left out.
\<close>

record trade =
  t_date :: "string option"
  t_trade_date :: "string option"
  t_action :: "string option"
  t_code :: "string option"
  t_stock_code :: "string option"
  t_name :: "string option"
  t_amount :: "int option"
  t_price :: "real option"
  t_total :: "real option"
  t_commission :: "real option"
  t_stamp_tax :: "real option"
  t_profit :: "real option"
  t_profit_pct :: "real option"
  t_reason :: "string option"
  t_profit_target :: "string option"
  t_stop_loss :: "string option"
  t_invalidation :: "string option"
  t_expected_days :: "int option"
  t_cash_before :: "real option"
  t_assets_before :: "real option"

record daily =
  d_date :: "string option"
  d_total_assets :: "real option"
  d_assets :: "real option"
  d_cash :: "real option"
  d_holdings_value :: "real option"
  d_holdings_count :: "int option"

record sell_decision =
  sd_action :: "string option"
  sd_code :: "string option"
  sd_amount :: "int option"
  sd_reason :: "string option"
  sd_confidence :: "real option"

record exit_plan =
  ep_profit_target :: "string option"
  ep_stop_loss :: "string option"
  ep_invalidation :: "string option"

record buy_decision =
  bd_action :: "string option"
  bd_code :: "string option"
  bd_suggested_amount :: "int option"
  bd_confidence :: "real option"
  bd_reason :: "string option"
  bd_expected_days :: "int option"
  bd_exit_plan :: "exit_plan option"

text \<open>
  \<^verbatim>\<open>TradingState\<close>. The value of \<^verbatim>\<open>state['holdings']\<close> is a dictionary from stock
  code to a holding object; the holding objects are mutated in place and shared with the
  snapshot that \<^verbatim>\<open>run_single_day\<close> takes, so they live in an explicit store: \<open>holdings\<close>
  maps a code to an address (an association list in insertion order, as a Python
  dictionary), \<open>heap\<close> maps an address to the holding stored there and \<open>next_addr\<close> is
  the next address to allocate.
\<close>

record state =
  trade_date :: string
  cash :: real
  initial_capital :: real
  holdings :: "(string \<times> addr) list"
  heap :: "addr \<Rightarrow> holding option"
  next_addr :: addr
  total_assets :: real
  candidates :: "string list"
  sell_analysis :: "sell_decision list"
  buy_analysis :: "buy_decision list"
  sell_trades :: "trade list"
  buy_trades :: "trade list"
  trade_history :: "trade list"
  daily_assets :: "daily list"

text \<open>
  The data provider: \<open>get_daily_price code date\<close> is \<open>None\<close> when the provider returns
  nothing for that day and \<open>Some c\<close> when it returns a bar whose \<^verbatim>\<open>close\<close> is \<open>c\<close>
  (\<open>0\<close> when the bar has no close); \<open>get_stock_basic_info code\<close> is the \<^verbatim>\<open>name\<close> of
  the stock's basic information, if it has one.
\<close>

record data_provider =
  get_daily_price :: "string \<Rightarrow> string \<Rightarrow> real option"
  get_stock_basic_info :: "string \<Rightarrow> string option"

text \<open>The trading section of the configuration, with the defaults already applied.\<close>

record config =
  max_holdings :: int
  stop_loss_pct :: real
  stop_profit_pct :: real
  ai_confidence_threshold :: real
  min_cash_to_buy :: real
  enable_reflection :: bool
  reflection_interval :: int

definition holding_at :: "state \<Rightarrow> string \<Rightarrow> holding option" where
  "holding_at s code =
     (case map_of (holdings s) code of None \<Rightarrow> None | Some a \<Rightarrow> heap s a)"

definition hold_days_of :: "holding \<Rightarrow> int" where
  "hold_days_of h = (case h_hold_days h of None \<Rightarrow> 0 | Some n \<Rightarrow> n)"

definition stock_name :: "data_provider \<Rightarrow> string \<Rightarrow> string" where
  "stock_name P code =
     (case get_stock_basic_info P code of None \<Rightarrow> unknown_name | Some n \<Rightarrow> n)"

section \<open>Node \<^verbatim>\<open>_execute_sells\<close>\<close>

text \<open>
  The fee arithmetic of one sell, as the source computes it from the gross proceeds
  \<^verbatim>\<open>sell_amount = amount * current_price\<close>.
\<close>

definition sell_commission :: "real \<Rightarrow> real" where
  "sell_commission sell_amount = max (sell_amount * 0.0003) 5"

definition sell_stamp_tax :: "real \<Rightarrow> real" where
  "sell_stamp_tax sell_amount = sell_amount * 0.001"

definition sell_net_income :: "real \<Rightarrow> real" where
  "sell_net_income sell_amount =
     sell_amount - sell_commission sell_amount - sell_stamp_tax sell_amount"

text \<open>The dictionary literal \<^verbatim>\<open>trade_record\<close> of \<^verbatim>\<open>_execute_sells\<close>.\<close>

definition sell_trade_record ::
  "data_provider \<Rightarrow> string \<Rightarrow> string \<Rightarrow> holding \<Rightarrow> real \<Rightarrow> sell_decision \<Rightarrow> trade" where
  "sell_trade_record P date code h current_price d =
     (let amount = h_amount h;
          sell_amount = of_int amount * current_price;
          commission = sell_commission sell_amount;
          stamp_tax = sell_stamp_tax sell_amount;
          net_income = sell_amount - commission - stamp_tax;
          cost_total = of_int amount * h_cost h;
          profit = net_income - cost_total;
          profit_pct = profit / cost_total * 100
      in \<lparr> t_date = Some date,
           t_trade_date = None,
           t_action = Some ''sell'',
           t_code = Some code,
           t_stock_code = None,
           t_name = Some (stock_name P code),
           t_amount = Some amount,
           t_price = Some current_price,
           t_total = Some sell_amount,
           t_commission = Some (commission + stamp_tax),
           t_stamp_tax = None,
           t_profit = Some profit,
           t_profit_pct = Some profit_pct,
           t_reason = Some (case sd_reason d of None \<Rightarrow> default_sell_reason | Some r \<Rightarrow> r),
           t_profit_target = None,
           t_stop_loss = None,
           t_invalidation = None,
           t_expected_days = None,
           t_cash_before = None,
           t_assets_before = None \<rparr>)"

text \<open>
  The body of the loop once a decision has passed the checks: the holding is sold whole
  at its \<^verbatim>\<open>current_price\<close>. \<^verbatim>\<open>holding['current_price']\<close> raises \<^verbatim>\<open>KeyError\<close> when
  the key is absent, and \<^verbatim>\<open>profit / cost_total\<close> raises \<^verbatim>\<open>ZeroDivisionError\<close> when the
  cost is zero; both happen before the state is written.
\<close>

definition sell_holding ::
  "data_provider \<Rightarrow> state \<Rightarrow> string \<Rightarrow> holding \<Rightarrow> sell_decision \<Rightarrow> py_error + (state \<times> trade)" where
  "sell_holding P s code h d =
     (case h_current_price h of
        None \<Rightarrow> Inl KeyError
      | Some current_price \<Rightarrow>
          if of_int (h_amount h) * h_cost h = 0 then Inl ZeroDivisionError
          else
            (let net_income = sell_net_income (of_int (h_amount h) * current_price);
                 trade_record = sell_trade_record P (trade_date s) code h current_price d
             in Inr (s\<lparr> cash := cash s + net_income,
                        holdings := AList.delete code (holdings s),
                        trade_history := trade_history s @ [trade_record] \<rparr>,
                     trade_record)))"

text \<open>
  The loop over \<^verbatim>\<open>decisions\<close>, with the local variables \<^verbatim>\<open>processed_codes\<close> and
  \<^verbatim>\<open>sell_trades\<close>. An exception leaves the loop with the state as mutated so far.
\<close>

fun sells_loop ::
  "data_provider \<Rightarrow> sell_decision list \<Rightarrow> string list \<Rightarrow> trade list \<Rightarrow> state
     \<Rightarrow> (py_error \<times> state) + (state \<times> trade list)" where
  "sells_loop P [] processed_codes sold s = Inr (s, sold)"
| "sells_loop P (d # ds) processed_codes sold s =
     (if sd_action d \<noteq> Some ''sell'' then sells_loop P ds processed_codes sold s
      else
        (case sd_code d of
           None \<Rightarrow> sells_loop P ds processed_codes sold s
         | Some code \<Rightarrow>
             if code = [] then sells_loop P ds processed_codes sold s
             else if code \<in> set processed_codes then sells_loop P ds processed_codes sold s
             else
               (case holding_at s code of
                  None \<Rightarrow> sells_loop P ds (code # processed_codes) sold s
                | Some h \<Rightarrow>
                    if hold_days_of h = 0
                    then sells_loop P ds (code # processed_codes) sold s
                    else
                      (case sell_holding P s code h d of
                         Inl e \<Rightarrow> Inl (e, s)
                       | Inr (s', t) \<Rightarrow>
                           sells_loop P ds (code # processed_codes) (sold @ [t]) s'))))"

definition execute_sells :: "data_provider \<Rightarrow> state \<Rightarrow> (py_error \<times> state) + state" where
  "execute_sells P s =
     (case sells_loop P (sell_analysis s) [] [] s of
        Inl e \<Rightarrow> Inl e
      | Inr (s', sold) \<Rightarrow> Inr (s'\<lparr> sell_trades := sold \<rparr>))"

section \<open>Node \<^verbatim>\<open>_execute_buys\<close>\<close>

text \<open>Python's \<^verbatim>\<open>int(x)\<close> on a float truncates toward zero.\<close>

definition py_int :: "real \<Rightarrow> int" where
  "py_int x = (if 0 \<le> x then \<lfloor>x\<rfloor> else \<lceil>x\<rceil>)"

text \<open>The default \<^verbatim>\<open>{}\<close> of \<^verbatim>\<open>decision.get('exit_plan', {})\<close>.\<close>

definition empty_exit_plan :: exit_plan where
  "empty_exit_plan = \<lparr> ep_profit_target = None, ep_stop_loss = None, ep_invalidation = None \<rparr>"

definition exit_plan_of :: "buy_decision \<Rightarrow> exit_plan" where
  "exit_plan_of d = (case bd_exit_plan d of None \<Rightarrow> empty_exit_plan | Some e \<Rightarrow> e)"

definition or_not_set :: "string option \<Rightarrow> string" where
  "or_not_set v = (case v of None \<Rightarrow> not_set | Some x \<Rightarrow> x)"

text \<open>The dictionary literal assigned to \<^verbatim>\<open>state['holdings'][code]\<close>.\<close>

definition buy_holding_record ::
  "data_provider \<Rightarrow> string \<Rightarrow> string \<Rightarrow> int \<Rightarrow> real \<Rightarrow> buy_decision \<Rightarrow> holding" where
  "buy_holding_record P date code amount price d =
     (let exit_plan = exit_plan_of d
      in \<lparr> h_amount = amount,
           h_cost = price,
           h_price = None,
           h_current_price = Some price,
           h_profit_pct = Some 0,
           h_hold_days = Some 0,
           h_buy_date = Some date,
           h_name = Some (stock_name P code),
           h_profit_target = Some (or_not_set (ep_profit_target exit_plan)),
           h_stop_loss = Some (or_not_set (ep_stop_loss exit_plan)),
           h_invalidation = Some (or_not_set (ep_invalidation exit_plan)),
           h_expected_days = Some (case bd_expected_days d of None \<Rightarrow> 5 | Some n \<Rightarrow> n) \<rparr>)"

text \<open>
  The dictionary literal \<^verbatim>\<open>trade_record\<close> of \<^verbatim>\<open>_execute_buys\<close>. It is built after
  the cash has been debited, so \<^verbatim>\<open>cash_before\<close> is the new cash plus the total cost.
\<close>

definition buy_trade_record ::
  "data_provider \<Rightarrow> string \<Rightarrow> string \<Rightarrow> int \<Rightarrow> real \<Rightarrow> buy_decision \<Rightarrow> real \<Rightarrow> real \<Rightarrow> trade" where
  "buy_trade_record P date code amount price d cash_after assets =
     (let stock_cost = of_int amount * price;
          commission = max (stock_cost * 0.0003) 5;
          total_cost = stock_cost + commission;
          exit_plan = exit_plan_of d
      in \<lparr> t_date = Some date,
           t_trade_date = None,
           t_action = Some ''buy'',
           t_code = Some code,
           t_stock_code = None,
           t_name = Some (stock_name P code),
           t_amount = Some amount,
           t_price = Some price,
           t_total = Some stock_cost,
           t_commission = Some commission,
           t_stamp_tax = None,
           t_profit = None,
           t_profit_pct = None,
           t_reason = Some (case bd_reason d of None \<Rightarrow> default_buy_reason | Some r \<Rightarrow> r),
           t_profit_target = Some (or_not_set (ep_profit_target exit_plan)),
           t_stop_loss = Some (or_not_set (ep_stop_loss exit_plan)),
           t_invalidation = Some (or_not_set (ep_invalidation exit_plan)),
           t_expected_days = Some (case bd_expected_days d of None \<Rightarrow> 5 | Some n \<Rightarrow> n),
           t_cash_before = Some (cash_after + total_cost),
           t_assets_before = Some assets \<rparr>)"

text \<open>
  The body of the loop for a decision with a fresh code: the price lookup, the lot
  rounding and the checks, in the order of the source. \<open>None\<close> is \<^verbatim>\<open>continue\<close>. The
  assignment \<^verbatim>\<open>state['holdings'][code] = {...}\<close> stores a new holding object under the
  code, whether or not the code was held before.
\<close>

definition buy_one :: "data_provider \<Rightarrow> state \<Rightarrow> string \<Rightarrow> buy_decision \<Rightarrow> (state \<times> trade) option" where
  "buy_one P s code d =
     (let suggested_amount = (case bd_suggested_amount d of None \<Rightarrow> 100 | Some n \<Rightarrow> n)
      in case get_daily_price P code (trade_date s) of
           None \<Rightarrow> None
         | Some price \<Rightarrow>
             if price \<le> 0 then None
             else
               (let max_amount = py_int (cash s / price / 100) * 100;
                    amount = (min suggested_amount max_amount div 100) * 100
                in if amount < 100 then None
                   else
                     (let stock_cost = of_int amount * price;
                          commission = max (stock_cost * 0.0003) 5;
                          total_cost = stock_cost + commission
                      in if total_cost > cash s then None
                         else if stock_cost > total_assets s * 0.40 then None
                         else
                           (let a = next_addr s;
                                cash_after = cash s - total_cost;
                                h = buy_holding_record P (trade_date s) code amount price d;
                                t = buy_trade_record P (trade_date s) code amount price d
                                      cash_after (total_assets s)
                            in Some (s\<lparr> cash := cash_after,
                                         holdings := AList.update code a (holdings s),
                                         heap := (heap s)(a \<mapsto> h),
                                         next_addr := Suc a,
                                         trade_history := trade_history s @ [t] \<rparr>, t)))))"

fun buys_loop ::
  "data_provider \<Rightarrow> buy_decision list \<Rightarrow> string list \<Rightarrow> trade list \<Rightarrow> state \<Rightarrow> state \<times> trade list" where
  "buys_loop P [] processed_codes bought s = (s, bought)"
| "buys_loop P (d # ds) processed_codes bought s =
     (if bd_action d \<noteq> Some ''buy'' then buys_loop P ds processed_codes bought s
      else
        (case bd_code d of
           None \<Rightarrow> buys_loop P ds processed_codes bought s
         | Some code \<Rightarrow>
             if code = [] then buys_loop P ds processed_codes bought s
             else if code \<in> set processed_codes then buys_loop P ds processed_codes bought s
             else
               (case buy_one P s code d of
                  None \<Rightarrow> buys_loop P ds (code # processed_codes) bought s
                | Some (s', t) \<Rightarrow> buys_loop P ds (code # processed_codes) (bought @ [t]) s')))"

text \<open>
  The node. The two checks before the loop return at once; \<^verbatim>\<open>max_buy_cash\<close> is
  computed as in the source, which does not use it afterwards.
\<close>

definition execute_buys :: "config \<Rightarrow> data_provider \<Rightarrow> state \<Rightarrow> state" where
  "execute_buys C P s =
     (if int (length (holdings s)) \<ge> max_holdings C then s\<lparr> buy_trades := [] \<rparr>
      else
        (let min_cash_reserve = initial_capital s * 0.05
         in if cash s < min_cash_reserve then s\<lparr> buy_trades := [] \<rparr>
            else
              (let max_buy_cash = cash s * 0.95;
                   (s', bought) = buys_loop P (buy_analysis s) [] [] s
               in s'\<lparr> buy_trades := bought \<rparr>)))"

section \<open>The decisions of \<^verbatim>\<open>_analyze_candidates\<close>\<close>

text \<open>
  One element of the JSON array that the language model returns for the buy prompt, with
  the keys that the prompt asks for.
\<close>

record raw_buy =
  rb_stock_code :: "string option"
  rb_code :: "string option"
  rb_suggested_amount :: "int option"
  rb_confidence :: "real option"
  rb_reason :: "string option"
  rb_expected_days :: "int option"
  rb_exit_plan :: "exit_plan option"

text \<open>Python's \<^verbatim>\<open>a or b\<close> on strings that may be absent: \<open>a\<close> if it is not empty.\<close>

definition str_or :: "string option \<Rightarrow> string option \<Rightarrow> string option" where
  "str_or a b = (case a of None \<Rightarrow> b | Some x \<Rightarrow> if x = [] then b else Some x)"

text \<open>
  The loop that filters by confidence and builds \<^verbatim>\<open>normalized_decision\<close>. The literal
  has the six keys \<^verbatim>\<open>code\<close>, \<^verbatim>\<open>action\<close>, \<^verbatim>\<open>suggested_amount\<close>, \<^verbatim>\<open>confidence\<close>,
  \<^verbatim>\<open>reason\<close> and \<^verbatim>\<open>expected_days\<close>, and no key \<^verbatim>\<open>exit_plan\<close>.
\<close>

definition normalize_buy :: "config \<Rightarrow> raw_buy \<Rightarrow> buy_decision option" where
  "normalize_buy C d =
     (case str_or (rb_stock_code d) (rb_code d) of
        None \<Rightarrow> None
      | Some code \<Rightarrow>
          if code = [] then None
          else
            (let confidence = (case rb_confidence d of None \<Rightarrow> 0 | Some c \<Rightarrow> c)
             in if confidence < ai_confidence_threshold C then None
                else Some \<lparr> bd_action = Some ''buy'',
                            bd_code = Some code,
                            bd_suggested_amount =
                              Some (case rb_suggested_amount d of None \<Rightarrow> 0 | Some n \<Rightarrow> n),
                            bd_confidence = Some confidence,
                            bd_reason = Some (case rb_reason d of None \<Rightarrow> [] | Some r \<Rightarrow> r),
                            bd_expected_days =
                              Some (case rb_expected_days d of None \<Rightarrow> 5 | Some n \<Rightarrow> n),
                            bd_exit_plan = None \<rparr>))"

definition normalize_buys :: "config \<Rightarrow> raw_buy list \<Rightarrow> buy_decision list" where
  "normalize_buys C ds = List.map_filter (normalize_buy C) ds"

section \<open>Node \<^verbatim>\<open>_update_holdings_prices\<close>\<close>

text \<open>
  What the loop body does to the holding object of one code. Every branch increments
  \<^verbatim>\<open>hold_days\<close>; the object is changed in place.
\<close>

definition update_holding :: "data_provider \<Rightarrow> string \<Rightarrow> string \<Rightarrow> holding \<Rightarrow> holding" where
  "update_holding P date code h =
     (let days = Some (hold_days_of h + 1)
      in case get_daily_price P code date of
           None \<Rightarrow> h\<lparr> h_hold_days := days \<rparr>
         | Some current_price \<Rightarrow>
             (let h1 =
                (if current_price > 0 then
                   (if h_cost h > 0
                    then h\<lparr> h_current_price := Some current_price,
                            h_profit_pct := Some ((current_price - h_cost h) / h_cost h * 100),
                            h_hold_days := days \<rparr>
                    else h\<lparr> h_current_price := Some current_price,
                            h_profit_pct := Some 0,
                            h_cost := current_price,
                            h_hold_days := days \<rparr>)
                 else h\<lparr> h_hold_days := days \<rparr>)
              in if h_name h1 = None \<or> h_name h1 = Some []
                 then h1\<lparr> h_name := Some (case get_stock_basic_info P code of
                                                None \<Rightarrow> code | Some n \<Rightarrow> n) \<rparr>
                 else h1))"

fun update_loop ::
  "data_provider \<Rightarrow> string \<Rightarrow> (string \<times> addr) list \<Rightarrow> (addr \<Rightarrow> holding option)
     \<Rightarrow> (addr \<Rightarrow> holding option)" where
  "update_loop P date [] hp = hp"
| "update_loop P date ((code, a) # rest) hp =
     update_loop P date rest
       (case hp a of None \<Rightarrow> hp | Some h \<Rightarrow> hp(a \<mapsto> update_holding P date code h))"

text \<open>
  \<^verbatim>\<open>h['amount'] * h.get('current_price', h.get('cost', 0))\<close>, summed over the holdings.
\<close>

definition holding_value :: "holding \<Rightarrow> real" where
  "holding_value h =
     of_int (h_amount h) * (case h_current_price h of None \<Rightarrow> h_cost h | Some p \<Rightarrow> p)"

definition holdings_value :: "(string \<times> addr) list \<Rightarrow> (addr \<Rightarrow> holding option) \<Rightarrow> real" where
  "holdings_value hs hp =
     (\<Sum>ca\<leftarrow>hs. case hp (snd ca) of None \<Rightarrow> 0 | Some h \<Rightarrow> holding_value h)"

definition update_holdings_prices :: "data_provider \<Rightarrow> state \<Rightarrow> state" where
  "update_holdings_prices P s =
     (let hp = update_loop P (trade_date s) (holdings s) (heap s)
      in s\<lparr> heap := hp, total_assets := cash s + holdings_value (holdings s) hp \<rparr>)"

section \<open>Node \<^verbatim>\<open>_evaluate_holdings\<close>\<close>

text \<open>
  What the day brings from outside the agent: whether the stop callback answers yes at the
  three nodes that ask it, the parsed answer of the language model to the sell prompt and
  to the buy prompt (\<open>None\<close> when every attempt failed or nothing could be parsed), and
  the outcome of the candidate search of \<^verbatim>\<open>_find_candidates\<close> (the batch of candidate
  codes, or the exception that the search raised).
\<close>

record raw_sell =
  rs_stock_code :: "string option"
  rs_code :: "string option"
  rs_stock :: "string option"
  rs_name :: "string option"
  rs_action :: "string option"
  rs_amount :: "int option"
  rs_reason :: "string option"
  rs_confidence :: "real option"

record day_env =
  stop_at_evaluate :: bool
  stop_at_find :: bool
  stop_at_analyze :: bool
  llm_sell_response :: "raw_sell list option"
  found_candidates :: "py_error + string list"
  llm_buy_response :: "raw_buy list option"

definition stop_loss_reason :: string where
  "stop_loss_reason = ''<forced stop loss>''"

definition stop_profit_reason :: string where
  "stop_profit_reason = ''<forced take profit>''"

text \<open>The defensive loop that gives a name to every holding that has none.\<close>

fun fix_names ::
  "data_provider \<Rightarrow> (string \<times> addr) list \<Rightarrow> (addr \<Rightarrow> holding option) \<Rightarrow> (addr \<Rightarrow> holding option)" where
  "fix_names P [] hp = hp"
| "fix_names P ((code, a) # rest) hp =
     fix_names P rest
       (case hp a of
          None \<Rightarrow> hp
        | Some h \<Rightarrow>
            if h_name h = None \<or> h_name h = Some []
            then hp(a \<mapsto> h\<lparr> h_name := Some (case get_stock_basic_info P code of
                                                None \<Rightarrow> code | Some n \<Rightarrow> n) \<rparr>)
            else hp)"

text \<open>The hard rule pass: stop loss first, then take profit, on the whole amount.\<close>

definition forced_sell :: "config \<Rightarrow> string \<Rightarrow> holding \<Rightarrow> sell_decision option" where
  "forced_sell C code h =
     (let profit_pct = (case h_profit_pct h of None \<Rightarrow> 0 | Some x \<Rightarrow> x);
          stop_loss = stop_loss_pct C * 100;
          stop_profit = stop_profit_pct C * 100
      in if profit_pct \<le> - stop_loss
         then Some \<lparr> sd_action = Some ''sell'', sd_code = Some code,
                     sd_amount = Some (h_amount h), sd_reason = Some stop_loss_reason,
                     sd_confidence = None \<rparr>
         else if profit_pct \<ge> stop_profit
         then Some \<lparr> sd_action = Some ''sell'', sd_code = Some code,
                     sd_amount = Some (h_amount h), sd_reason = Some stop_profit_reason,
                     sd_confidence = None \<rparr>
         else None)"

definition forced_sells :: "config \<Rightarrow> state \<Rightarrow> sell_decision list" where
  "forced_sells C s =
     List.map_filter
       (\<lambda>ca. case heap s (snd ca) of None \<Rightarrow> None | Some h \<Rightarrow> forced_sell C (fst ca) h)
       (holdings s)"

text \<open>
  The tolerance for the answer of the model: the code is taken from one of three keys,
  else found by the name of a holding, else it is the only holding; a decision without a
  code, or with a code that is not held, is ignored.
\<close>

definition code_by_name :: "state \<Rightarrow> string \<Rightarrow> string option" where
  "code_by_name s n =
     map_option fst
       (find (\<lambda>ca. case heap s (snd ca) of None \<Rightarrow> False | Some h \<Rightarrow> h_name h = Some n)
             (holdings s))"

definition truthy :: "string option \<Rightarrow> bool" where
  "truthy v = (case v of None \<Rightarrow> False | Some x \<Rightarrow> x \<noteq> [])"

definition fix_sell_decision :: "state \<Rightarrow> raw_sell \<Rightarrow> sell_decision option" where
  "fix_sell_decision s dec =
     (let code0 = str_or (str_or (rs_stock_code dec) (rs_code dec)) (rs_stock dec);
          code1 = (if \<not> truthy code0 \<and> truthy (rs_name dec)
                   then (case code_by_name s (the (rs_name dec)) of None \<Rightarrow> code0 | Some c \<Rightarrow> Some c)
                   else code0);
          code2 = (if \<not> truthy code1 \<and> length (holdings s) = 1
                   then Some (fst (hd (holdings s))) else code1)
      in if \<not> truthy code2 then None
         else if holding_at s (the code2) = None then None
         else Some \<lparr> sd_action = rs_action dec, sd_code = code2, sd_amount = rs_amount dec,
                     sd_reason = rs_reason dec, sd_confidence = rs_confidence dec \<rparr>)"

text \<open>
  The node. The profit percentage for the prompt divides by the initial capital, outside
  any \<^verbatim>\<open>try\<close>; the call of the model itself is wrapped and retried, and ends with an
  empty list of decisions when it fails.
\<close>

definition evaluate_holdings ::
  "config \<Rightarrow> data_provider \<Rightarrow> day_env \<Rightarrow> state \<Rightarrow> (py_error \<times> state) + state" where
  "evaluate_holdings C P E s =
     (if stop_at_evaluate E then Inr (s\<lparr> sell_analysis := [] \<rparr>)
      else if holdings s = [] then Inr (s\<lparr> sell_analysis := [] \<rparr>)
      else
        (let s1 = s\<lparr> heap := fix_names P (holdings s) (heap s) \<rparr>;
             forced = forced_sells C s1
         in if forced \<noteq> [] then Inr (s1\<lparr> sell_analysis := forced \<rparr>)
            else if initial_capital s1 = 0 then Inl (ZeroDivisionError, s1)
            else
              (case llm_sell_response E of
                 None \<Rightarrow> Inr (s1\<lparr> sell_analysis := [] \<rparr>)
               | Some decisions \<Rightarrow>
                   Inr (s1\<lparr> sell_analysis := List.map_filter (fix_sell_decision s1) decisions \<rparr>))))"

section \<open>Nodes \<^verbatim>\<open>_find_candidates\<close>, \<^verbatim>\<open>_analyze_candidates\<close>, \<^verbatim>\<open>_record_daily_assets\<close>, \<^verbatim>\<open>_daily_reflection\<close>\<close>

definition find_candidates :: "config \<Rightarrow> day_env \<Rightarrow> state \<Rightarrow> (py_error \<times> state) + state" where
  "find_candidates C E s =
     (if stop_at_find E then Inr (s\<lparr> candidates := [] \<rparr>)
      else if cash s < min_cash_to_buy C then Inr (s\<lparr> candidates := [] \<rparr>)
      else
        (case found_candidates E of
           Inl e \<Rightarrow> Inl (e, s)
         | Inr cs \<Rightarrow> Inr (s\<lparr> candidates := cs \<rparr>)))"

definition analyze_candidates :: "config \<Rightarrow> day_env \<Rightarrow> state \<Rightarrow> (py_error \<times> state) + state" where
  "analyze_candidates C E s =
     (if stop_at_analyze E then Inr (s\<lparr> buy_analysis := [] \<rparr>)
      else if candidates s = [] then Inr (s\<lparr> buy_analysis := [] \<rparr>)
      else if initial_capital s = 0 then Inl (ZeroDivisionError, s)
      else
        (case llm_buy_response E of
           None \<Rightarrow> Inr (s\<lparr> buy_analysis := [] \<rparr>)
         | Some decisions \<Rightarrow> Inr (s\<lparr> buy_analysis := normalize_buys C decisions \<rparr>)))"

text \<open>
  \<^verbatim>\<open>_record_daily_assets\<close> reads \<^verbatim>\<open>h['current_price']\<close> with brackets, so a holding
  without that key raises.
\<close>

definition record_daily_assets :: "state \<Rightarrow> (py_error \<times> state) + state" where
  "record_daily_assets s =
     (if \<exists>ca\<in>set (holdings s). case heap s (snd ca) of
                                   None \<Rightarrow> False | Some h \<Rightarrow> h_current_price h = None
      then Inl (KeyError, s)
      else
        (let hv = holdings_value (holdings s) (heap s);
             ta = cash s + hv;
             daily_record = \<lparr> d_date = Some (trade_date s), d_total_assets = Some ta,
                              d_assets = None, d_cash = Some (cash s),
                              d_holdings_value = Some hv,
                              d_holdings_count = Some (int (length (holdings s))) \<rparr>
         in Inr (s\<lparr> total_assets := ta, daily_assets := daily_assets s @ [daily_record] \<rparr>)))"

text \<open>
  \<^verbatim>\<open>_daily_reflection\<close> writes only the key \<^verbatim>\<open>reflection\<close> of the state, which is not
  modelled; what is kept of it are the computations outside the wrapped call of the
  model, which can raise. Before the decision to reflect these are two divisions, a
  remainder and the read of \<^verbatim>\<open>d['total_assets']\<close>. When the node reflects, it calls
  \<^verbatim>\<open>get_reflection_prompt\<close> before the \<^verbatim>\<open>try\<close>: the prompt reads \<^verbatim>\<open>t['action']\<close> of
  every trade and \<^verbatim>\<open>trade['date']\<close> of the last ten, and divides by the total of the
  first daily record.
\<close>

definition reflection_prompt_error :: "state \<Rightarrow> py_error option" where
  "reflection_prompt_error s =
     (if \<exists>t\<in>set (trade_history s). t_action t = None then Some KeyError
      else if \<exists>t\<in>set (drop (length (trade_history s) - 10) (trade_history s)). t_date t = None
      then Some KeyError
      else
        (case daily_assets s of
           [] \<Rightarrow> None
         | first_record # _ \<Rightarrow>
             (case d_total_assets first_record of
                None \<Rightarrow> Some KeyError
              | Some initial_assets \<Rightarrow>
                  if d_total_assets (last (daily_assets s)) = None then Some KeyError
                  else if initial_assets = 0 then Some ZeroDivisionError
                  else None)))"

definition daily_reflection :: "config \<Rightarrow> state \<Rightarrow> (py_error \<times> state) + state" where
  "daily_reflection C s =
     (if \<not> enable_reflection C then Inr s
      else if initial_capital s = 0 then Inl (ZeroDivisionError, s)
      else if reflection_interval C = 0 then Inl (ZeroDivisionError, s)
      else
        (let profit_pct = (total_assets s - initial_capital s) / initial_capital s * 100;
             periodic = (int (length (daily_assets s)) mod reflection_interval C = 0);
             loss = (profit_pct < - 3)
         in if daily_assets s = []
            then (if periodic \<or> loss
                  then (case reflection_prompt_error s of
                          Some e \<Rightarrow> Inl (e, s) | None \<Rightarrow> Inr s)
                  else Inr s)
            else if \<exists>d\<in>set (daily_assets s). d_total_assets d = None then Inl (KeyError, s)
            else
              (let max_assets = Max (set (map (\<lambda>d. the (d_total_assets d)) (daily_assets s)))
               in if max_assets = 0 then Inl (ZeroDivisionError, s)
                  else
                    (let drawdown_pct = (max_assets - total_assets s) / max_assets * 100
                     in if periodic \<or> loss \<or> drawdown_pct > 5
                        then (case reflection_prompt_error s of
                                Some e \<Rightarrow> Inl (e, s) | None \<Rightarrow> Inr s)
                        else Inr s))))"

text \<open>
  Vocabulary for the properties of the node: the codes of a list of trades, the gross
  proceeds recorded in a trade, and the relation between a sell trade and the decision
  and holding it was made from.
\<close>

definition codes_of :: "trade list \<Rightarrow> string set" where
  "codes_of ts = {c. \<exists>t\<in>set ts. t_code t = Some c}"

definition proceeds :: "trade \<Rightarrow> real" where
  "proceeds t = (case t_total t of None \<Rightarrow> 0 | Some x \<Rightarrow> x)"

definition sold_from ::
  "data_provider \<Rightarrow> state \<Rightarrow> sell_decision list \<Rightarrow> string list \<Rightarrow> trade \<Rightarrow> bool" where
  "sold_from P s ds seen t \<longleftrightarrow>
     (\<exists>code h p d. d \<in> set ds \<and> sd_code d = Some code \<and> sd_action d = Some ''sell''
        \<and> code \<notin> set seen
        \<and> holding_at s code = Some h \<and> hold_days_of h \<noteq> 0 \<and> h_current_price h = Some p
        \<and> of_int (h_amount h) * h_cost h \<noteq> 0
        \<and> t = sell_trade_record P (trade_date s) code h p d)"

text \<open>The fees recorded in a trade: the value of its key \<^verbatim>\<open>commission\<close>.\<close>

definition recorded_fees :: "trade \<Rightarrow> real" where
  "recorded_fees t = (case t_commission t of None \<Rightarrow> 0 | Some x \<Rightarrow> x)"

text \<open>
  The same vocabulary for the buy node: the conditions under which the loop of
  \<^verbatim>\<open>_execute_buys\<close> executes a buy, read off the trade it appends (\<open>cash_now\<close> is the
  cash at the moment the decision is processed), and the total cost recorded in a trade.
\<close>

definition bought_under :: "data_provider \<Rightarrow> state \<Rightarrow> buy_decision list \<Rightarrow> trade \<Rightarrow> bool" where
  "bought_under P s ds t \<longleftrightarrow>
     (\<exists>code amount price d cash_now.
        d \<in> set ds \<and> bd_code d = Some code
      \<and> get_daily_price P code (trade_date s) = Some price \<and> 0 < price
      \<and> 100 \<le> amount \<and> 100 dvd amount
      \<and> amount \<le> (case bd_suggested_amount d of None \<Rightarrow> 100 | Some n \<Rightarrow> n)
      \<and> of_int amount * price \<le> total_assets s * 0.40
      \<and> of_int amount * price + max (of_int amount * price * 0.0003) 5 \<le> cash_now
      \<and> cash_now \<le> cash s
      \<and> t = buy_trade_record P (trade_date s) code amount price d
              (cash_now - (of_int amount * price + max (of_int amount * price * 0.0003) 5))
              (total_assets s))"

definition buy_total_cost :: "trade \<Rightarrow> real" where
  "buy_total_cost t = (case t_total t of None \<Rightarrow> 0 | Some x \<Rightarrow> x)
                     + (case t_commission t of None \<Rightarrow> 0 | Some x \<Rightarrow> x)"

text \<open>
  Claim C4 as it is worded: the five gates, all evaluated on the state at the moment the
  decision is processed, with the total cost held against 95% of the cash.
\<close>

definition spec_risk_gates :: "config \<Rightarrow> state \<Rightarrow> int \<Rightarrow> real \<Rightarrow> bool" where
  "spec_risk_gates C s amount price \<longleftrightarrow>
     int (length (holdings s)) < max_holdings C
   \<and> cash s \<ge> initial_capital s * 0.05
   \<and> of_int amount * price \<le> total_assets s * 0.40
   \<and> of_int amount * price + max (of_int amount * price * 0.0003) 5 \<le> cash s * 0.95
   \<and> amount \<ge> 100 \<and> 100 dvd amount"


section \<open>\<^verbatim>\<open>run_single_day\<close>\<close>

text \<open>
  The attributes of the agent object that a day reads and writes. The holding objects
  that \<open>ag_holdings\<close> refers to live in the store \<open>ag_heap\<close>.
\<close>

record agent =
  ag_cash :: real
  ag_initial_capital :: real
  ag_holdings :: "(string \<times> addr) list"
  ag_heap :: "addr \<Rightarrow> holding option"
  ag_next_addr :: addr
  ag_total_assets :: real
  ag_trade_history :: "trade list"
  ag_daily_assets :: "daily list"

text \<open>
  \<^verbatim>\<open>pre_state\<close>: \<^verbatim>\<open>dict(self.holdings)\<close> builds a new dictionary with the same keys
  and the same holding objects as values, so the snapshot keeps the addresses;
  \<^verbatim>\<open>list(self.trade_history)\<close> and \<^verbatim>\<open>list(self.daily_assets)\<close> build new lists of the
  same records, which no node changes in place.
\<close>

record pre_state =
  ps_cash :: real
  ps_holdings :: "(string \<times> addr) list"
  ps_total_assets :: real
  ps_trade_history :: "trade list"
  ps_daily_assets :: "daily list"

definition agent_holding_at :: "agent \<Rightarrow> string \<Rightarrow> holding option" where
  "agent_holding_at A code =
     (case map_of (ag_holdings A) code of None \<Rightarrow> None | Some a \<Rightarrow> ag_heap A a)"

definition and_then ::
  "(py_error \<times> state) + state \<Rightarrow> (state \<Rightarrow> (py_error \<times> state) + state)
     \<Rightarrow> (py_error \<times> state) + state" where
  "and_then r node = (case r of Inl e \<Rightarrow> Inl e | Inr s \<Rightarrow> node s)"

text \<open>
  The compiled graph is the linear chain of the eight nodes; every node receives the
  state that the node before it returned, which is the one state object mutated in place.
\<close>

definition run_workflow ::
  "config \<Rightarrow> data_provider \<Rightarrow> day_env \<Rightarrow> state \<Rightarrow> (py_error \<times> state) + state" where
  "run_workflow C P E s =
     and_then (and_then (and_then (and_then (and_then (and_then (and_then
       (Inr (update_holdings_prices P s))
       (evaluate_holdings C P E))
       (execute_sells P))
       (find_candidates C E))
       (analyze_candidates C E))
       (\<lambda>s. Inr (execute_buys C P s)))
       record_daily_assets)
       (daily_reflection C)"

text \<open>
  \<^verbatim>\<open>run_single_day\<close>: the state is built from the attributes of the agent (the same
  objects), the snapshot is taken, the graph runs. On success the attributes are set
  from the result; on an exception they are set from the snapshot and the exception is
  raised again. The result is the exception, if any, and the agent afterwards; the store
  is what the nodes left.
\<close>

definition run_single_day ::
  "config \<Rightarrow> data_provider \<Rightarrow> day_env \<Rightarrow> bool \<Rightarrow> string \<Rightarrow> agent \<Rightarrow> py_error option \<times> agent" where
  "run_single_day C P E should_stop date A =
     (if should_stop then (None, A)
      else
        (let state = \<lparr> trade_date = date, cash = ag_cash A,
                       initial_capital = ag_initial_capital A,
                       holdings = ag_holdings A, heap = ag_heap A,
                       next_addr = ag_next_addr A, total_assets = ag_total_assets A,
                       candidates = [], sell_analysis = [], buy_analysis = [],
                       sell_trades = [], buy_trades = [],
                       trade_history = ag_trade_history A,
                       daily_assets = ag_daily_assets A \<rparr>;
             pre = \<lparr> ps_cash = ag_cash A, ps_holdings = ag_holdings A,
                     ps_total_assets = ag_total_assets A,
                     ps_trade_history = ag_trade_history A,
                     ps_daily_assets = ag_daily_assets A \<rparr>
         in case run_workflow C P E state of
              Inr r \<Rightarrow>
                (None, A\<lparr> ag_cash := cash r, ag_holdings := holdings r, ag_heap := heap r,
                          ag_next_addr := next_addr r, ag_total_assets := total_assets r,
                          ag_trade_history := trade_history r,
                          ag_daily_assets := daily_assets r \<rparr>)
            | Inl (e, r) \<Rightarrow>
                (Some e, A\<lparr> ag_cash := ps_cash pre, ag_holdings := ps_holdings pre,
                            ag_heap := heap r, ag_next_addr := next_addr r,
                            ag_total_assets := ps_total_assets pre,
                            ag_trade_history := ps_trade_history pre,
                            ag_daily_assets := ps_daily_assets pre \<rparr>)))"

section \<open>Dates\<close>















section \<open>\<^verbatim>\<open>detect_data_corruption\<close>\<close>











section \<open>\<^verbatim>\<open>rollback_to_date\<close>\<close>







text \<open>The rebuilt holdings are new objects: they are stored at fresh addresses.\<close>

fun install ::
  "(string \<times> holding) list \<Rightarrow> addr \<Rightarrow> (addr \<Rightarrow> holding option)
     \<Rightarrow> (string \<times> addr) list \<times> (addr \<Rightarrow> holding option) \<times> addr" where
  "install [] n hp = ([], hp, n)"
| "install ((code, h) # rest) n hp =
     (case install rest (Suc n) (hp(n \<mapsto> h)) of
        (al, hp', n') \<Rightarrow> ((code, n) # al, hp', n'))"

definition with_holdings :: "(string \<times> holding) list \<Rightarrow> agent \<Rightarrow> agent" where
  "with_holdings hs A =
     (case install hs (ag_next_addr A) (ag_heap A) of
        (al, hp, n) \<Rightarrow> A\<lparr> ag_holdings := al, ag_heap := hp, ag_next_addr := n \<rparr>)"

text \<open>The holdings of an agent as a list of codes and holdings, in the order of the dictionary.\<close>

definition agent_view :: "agent \<Rightarrow> (string \<times> holding) list" where
  "agent_view A =
     List.map_filter (\<lambda>ca. map_option (Pair (fst ca)) (ag_heap A (snd ca))) (ag_holdings A)"






section \<open>Worked examples\<close>

text \<open>
  The second day of the specification's scenario A: 200 shares of \<^verbatim>\<open>000001.SZ\<close> bought
  at 10.00 the day before are held for one day, the close is 11.00 and the decision is to
  sell.
\<close>

definition ex_provider :: data_provider where
  "ex_provider = \<lparr> get_daily_price = (\<lambda>code date. None),
                   get_stock_basic_info = (\<lambda>code. None) \<rparr>"

definition ex_holding :: holding where
  "ex_holding = \<lparr> h_amount = 200, h_cost = 10, h_price = None, h_current_price = Some 11,
                  h_profit_pct = Some 10, h_hold_days = Some 1, h_buy_date = Some ''20250106'',
                  h_name = None, h_profit_target = Some not_set, h_stop_loss = Some not_set,
                  h_invalidation = Some not_set, h_expected_days = Some 5 \<rparr>"

definition ex_sell_decision :: sell_decision where
  "ex_sell_decision = \<lparr> sd_action = Some ''sell'', sd_code = Some ''000001.SZ'',
                        sd_amount = Some 200, sd_reason = None, sd_confidence = None \<rparr>"

definition ex_sell_state :: state where
  "ex_sell_state = \<lparr> trade_date = ''20250107'', cash = 7995, initial_capital = 10000,
                     holdings = [(''000001.SZ'', 0)], heap = (\<lambda>a. if a = 0 then Some ex_holding else None),
                     next_addr = 1, total_assets = 10195, candidates = [],
                     sell_analysis = [ex_sell_decision], buy_analysis = [],
                     sell_trades = [], buy_trades = [], trade_history = [], daily_assets = [] \<rparr>"

definition ex_sell_trade :: trade where
  "ex_sell_trade = sell_trade_record ex_provider ''20250107'' ''000001.SZ'' ex_holding 11 ex_sell_decision"

definition ex_sold_state :: state where
  "ex_sold_state = ex_sell_state\<lparr> cash := 10187.8, holdings := [],
                                 trade_history := [ex_sell_trade], sell_trades := [ex_sell_trade] \<rparr>"

text \<open>
  A configuration with the defaults of the source, a provider that quotes three stocks,
  and an account that holds nothing.
\<close>

definition ex_cfg :: config where
  "ex_cfg = \<lparr> max_holdings = 5, stop_loss_pct = 0.05, stop_profit_pct = 0.15,
              ai_confidence_threshold = 0.30, min_cash_to_buy = 500,
              enable_reflection = False, reflection_interval = 5 \<rparr>"

definition ex_buy_provider :: data_provider where
  "ex_buy_provider =
     \<lparr> get_daily_price = (\<lambda>code date.
          if code = ''000001.SZ'' then Some 12
          else if code = ''600000.SH'' \<or> code = ''600036.SH'' \<or> code = ''601398.SH'' then Some 10
          else None),
       get_stock_basic_info = (\<lambda>code. None) \<rparr>"

definition ex_buy :: "string \<Rightarrow> int \<Rightarrow> buy_decision" where
  "ex_buy code n = \<lparr> bd_action = Some ''buy'', bd_code = Some code,
                     bd_suggested_amount = Some n, bd_confidence = Some 0.8,
                     bd_reason = Some [], bd_expected_days = Some 5, bd_exit_plan = None \<rparr>"

definition ex_fresh_state :: "real \<Rightarrow> buy_decision list \<Rightarrow> state" where
  "ex_fresh_state money ds =
     \<lparr> trade_date = ''20250106'', cash = money, initial_capital = money,
       holdings = [], heap = (\<lambda>a. None), next_addr = 0, total_assets = money,
       candidates = [], sell_analysis = [], buy_analysis = ds,
       sell_trades = [], buy_trades = [], trade_history = [], daily_assets = [] \<rparr>"

text \<open>
  For claim C3: 100 shares of \<^verbatim>\<open>000001.SZ\<close> are held at an average cost of 10.00, the
  close is 12.00 and the decision is to buy 100 more.
\<close>

definition ex_held :: holding where
  "ex_held = \<lparr> h_amount = 100, h_cost = 10, h_price = None, h_current_price = Some 12,
               h_profit_pct = Some 20, h_hold_days = Some 2, h_buy_date = Some ''20250106'',
               h_name = Some ''PAB'', h_profit_target = Some not_set,
               h_stop_loss = Some not_set, h_invalidation = Some not_set,
               h_expected_days = Some 5 \<rparr>"

definition ex_merge_state :: state where
  "ex_merge_state =
     \<lparr> trade_date = ''20250108'', cash = 10000, initial_capital = 11005,
       holdings = [(''000001.SZ'', 0)], heap = (\<lambda>a. if a = 0 then Some ex_held else None),
       next_addr = 1, total_assets = 11200,
       candidates = [], sell_analysis = [], buy_analysis = [ex_buy ''000001.SZ'' 100],
       sell_trades = [], buy_trades = [], trade_history = [], daily_assets = [] \<rparr>"

text \<open>
  For claim C4: at most one holding is allowed, nothing is held and two buys are decided.
\<close>

definition ex_one_cfg :: config where
  "ex_one_cfg = ex_cfg\<lparr> max_holdings := 1 \<rparr>"

definition ex_two_buys_state :: state where
  "ex_two_buys_state = ex_fresh_state 10000 [ex_buy ''600000.SH'' 100, ex_buy ''600036.SH'' 100]"

definition ex_after_first_buy :: state where
  "ex_after_first_buy =
     fst (the (buy_one ex_buy_provider ex_two_buys_state ''600000.SH'' (ex_buy ''600000.SH'' 100)))"

text \<open>
  For claim C8: the answer of the model to the buy prompt carries an exit plan.
\<close>

definition ex_raw_buy :: raw_buy where
  "ex_raw_buy = \<lparr> rb_stock_code = Some ''600000.SH'', rb_code = None,
                  rb_suggested_amount = Some 200, rb_confidence = Some 0.8,
                  rb_reason = Some ''breakout'', rb_expected_days = Some 5,
                  rb_exit_plan = Some \<lparr> ep_profit_target = Some ''+10%'',
                                         ep_stop_loss = Some ''-5%'',
                                         ep_invalidation = Some ''close below MA20'' \<rparr> \<rparr>"

definition ex_buy_env :: day_env where
  "ex_buy_env = \<lparr> stop_at_evaluate = False, stop_at_find = False, stop_at_analyze = False,
                  llm_sell_response = None, found_candidates = Inr [''600000.SH''],
                  llm_buy_response = Some [ex_raw_buy] \<rparr>"

definition ex_analyzed_state :: state where
  "ex_analyzed_state =
     (ex_fresh_state 10000 [])\<lparr> candidates := [''600000.SH''],
                                buy_analysis := normalize_buys ex_cfg [ex_raw_buy] \<rparr>"

text \<open>
  For claim C9: an account of 3015 buys 100 shares of each of three stocks at 10.00, which
  costs 1005 each with the minimum commission. The next day the first of them closes at
  0.01, the forced stop loss sells it, and the fees are more than the proceeds.
\<close>

definition ex_three_buys_state :: state where
  "ex_three_buys_state =
     ex_fresh_state 3015 [ex_buy ''600000.SH'' 100, ex_buy ''600036.SH'' 100,
                          ex_buy ''601398.SH'' 100]"

definition ex_crash_provider :: data_provider where
  "ex_crash_provider =
     \<lparr> get_daily_price = (\<lambda>code date.
          if code = ''600000.SH'' then Some 0.01
          else if code = ''600036.SH'' \<or> code = ''601398.SH'' then Some 10
          else None),
       get_stock_basic_info = (\<lambda>code. None) \<rparr>"

definition ex_quiet_env :: day_env where
  "ex_quiet_env = \<lparr> stop_at_evaluate = False, stop_at_find = False, stop_at_analyze = False,
                    llm_sell_response = None, found_candidates = Inr [],
                    llm_buy_response = None \<rparr>"

definition ex_day1 :: state where
  "ex_day1 = execute_buys ex_cfg ex_buy_provider ex_three_buys_state"

definition ex_day2_priced :: state where
  "ex_day2_priced = update_holdings_prices ex_crash_provider (ex_day1\<lparr> trade_date := ''20250107'' \<rparr>)"

definition ex_day2_evaluated :: state where
  "ex_day2_evaluated = projr (evaluate_holdings ex_cfg ex_crash_provider ex_quiet_env ex_day2_priced)"

definition ex_day2_sold :: state where
  "ex_day2_sold = projr (execute_sells ex_crash_provider ex_day2_evaluated)"



text \<open>
  For claim C5: the agent holds two stocks. The first was bought at 10.00 a day ago; the
  second has a cost of zero (as after a recovery of the data, which the source mentions)
  and is not quoted on the day. The model decides to sell both.
\<close>

definition ex_lot_a :: holding where
  "ex_lot_a = \<lparr> h_amount = 100, h_cost = 10, h_price = None, h_current_price = Some 10,
                h_profit_pct = Some 0, h_hold_days = Some 1, h_buy_date = Some ''20250106'',
                h_name = Some ''PAB'', h_profit_target = Some not_set,
                h_stop_loss = Some not_set, h_invalidation = Some not_set,
                h_expected_days = Some 5 \<rparr>"

definition ex_lot_b :: holding where
  "ex_lot_b = \<lparr> h_amount = 100, h_cost = 0, h_price = None, h_current_price = Some 8,
                h_profit_pct = Some 0, h_hold_days = Some 3, h_buy_date = Some ''20250102'',
                h_name = Some ''VANKE'', h_profit_target = Some not_set,
                h_stop_loss = Some not_set, h_invalidation = Some not_set,
                h_expected_days = Some 5 \<rparr>"

definition ex_agent :: agent where
  "ex_agent = \<lparr> ag_cash = 5000, ag_initial_capital = 10000,
                ag_holdings = [(''000001.SZ'', 0), (''000002.SZ'', 1)],
                ag_heap = (\<lambda>a. if a = 0 then Some ex_lot_a
                                else if a = 1 then Some ex_lot_b else None),
                ag_next_addr = 2, ag_total_assets = 6800,
                ag_trade_history = [], ag_daily_assets = [] \<rparr>"

definition ex_gap_provider :: data_provider where
  "ex_gap_provider =
     \<lparr> get_daily_price = (\<lambda>code date. if code = ''000001.SZ'' then Some 10.5 else None),
       get_stock_basic_info = (\<lambda>code. None) \<rparr>"

definition ex_raw_sell :: "string \<Rightarrow> raw_sell" where
  "ex_raw_sell code = \<lparr> rs_stock_code = None, rs_code = Some code, rs_stock = None,
                        rs_name = None, rs_action = Some ''sell'', rs_amount = Some 100,
                        rs_reason = Some ''rotate'', rs_confidence = Some 0.7 \<rparr>"

definition ex_sell_env :: day_env where
  "ex_sell_env = \<lparr> stop_at_evaluate = False, stop_at_find = False, stop_at_analyze = False,
                   llm_sell_response = Some [ex_raw_sell ''000001.SZ'', ex_raw_sell ''000002.SZ''],
                   found_candidates = Inr [], llm_buy_response = None \<rparr>"

definition ex_agent_after :: agent where
  "ex_agent_after = snd (run_single_day ex_cfg ex_gap_provider ex_sell_env False ''20250107'' ex_agent)"











section \<open>Properties of \<^verbatim>\<open>_execute_sells\<close>\<close>

lemma sell_holding_Inr:
  assumes "sell_holding P s code h d = Inr (s', t)"
  shows "\<exists>p. h_current_price h = Some p \<and> of_int (h_amount h) * h_cost h \<noteq> 0
            \<and> t = sell_trade_record P (trade_date s) code h p d
            \<and> s' = s\<lparr> cash := cash s + sell_net_income (of_int (h_amount h) * p),
                      holdings := AList.delete code (holdings s),
                      trade_history := trade_history s @ [t] \<rparr>"
  using assms
  by (auto simp: sell_holding_def Let_def split: option.splits if_splits)

lemma codes_of_simps [simp]: "codes_of [] = {}" "codes_of (t # ts) = {c. t_code t = Some c} \<union> codes_of ts"
  by (auto simp: codes_of_def)

lemma sell_trade_record_code [simp]: "t_code (sell_trade_record P dt code h p d) = Some code"
  by (simp add: sell_trade_record_def Let_def)

lemma sell_trade_record_proceeds [simp]:
  "proceeds (sell_trade_record P dt code h p d) = of_int (h_amount h) * p"
  by (simp add: sell_trade_record_def proceeds_def Let_def)

lemma holding_at_delete:
  "holding_at (s\<lparr>cash := c, holdings := AList.delete code (holdings s), trade_history := th\<rparr>) k
     = (if k = code then None else holding_at s k)"
  by (simp add: holding_at_def delete_conv' split: option.splits)

lemma sold_from_skip:
  "sold_from P s ds seen' t \<Longrightarrow> set seen \<subseteq> set seen' \<Longrightarrow> sold_from P s (d # ds) seen t"
  unfolding sold_from_def by (elim exE conjE, intro exI conjI) auto

lemma sold_from_step:
  assumes "sold_from P (s\<lparr>cash := c, holdings := AList.delete code (holdings s), trade_history := th\<rparr>)
             ds (code # seen) t"
  shows "sold_from P s (d # ds) seen t"
proof -
  from assms obtain k h p d' where
    *: "d' \<in> set ds" "sd_code d' = Some k" "sd_action d' = Some ''sell''" "k \<notin> set (code # seen)"
       "holding_at (s\<lparr>cash := c, holdings := AList.delete code (holdings s), trade_history := th\<rparr>) k = Some h"
       "hold_days_of h \<noteq> 0" "h_current_price h = Some p" "of_int (h_amount h) * h_cost h \<noteq> 0"
       "t = sell_trade_record P (trade_date s) k h p d'"
    unfolding sold_from_def by auto
  from *(4,5) have "holding_at s k = Some h" by (simp add: holding_at_delete split: if_splits)
  with * show ?thesis unfolding sold_from_def by (intro exI[of _ k] exI[of _ h] exI[of _ p] exI[of _ d']) auto
qed

lemma sells_loop_Inr:
  "sells_loop P ds seen sold s = Inr (s', sold') \<Longrightarrow>
   \<exists>new. sold' = sold @ new
      \<and> s' = s\<lparr> cash := cash s + (\<Sum>t\<leftarrow>new. sell_net_income (proceeds t)),
                holdings := filter (\<lambda>ca. fst ca \<notin> codes_of new) (holdings s),
                trade_history := trade_history s @ new \<rparr>
      \<and> (\<forall>t\<in>set new. sold_from P s ds seen t)"
proof (induction ds arbitrary: seen sold s)
  case Nil
  then show ?case by (intro exI[of _ "[]"]) simp
next
  case (Cons d ds)
  let ?goal = "\<lambda>seen sold s. \<exists>new. sold' = sold @ new
      \<and> s' = s\<lparr> cash := cash s + (\<Sum>t\<leftarrow>new. sell_net_income (proceeds t)),
                holdings := filter (\<lambda>ca. fst ca \<notin> codes_of new) (holdings s),
                trade_history := trade_history s @ new \<rparr>
      \<and> (\<forall>t\<in>set new. sold_from P s (d # ds) seen t)"
  have skip: "?goal seen sold s" if "sells_loop P ds seen2 sold s = Inr (s', sold')" "set seen \<subseteq> set seen2"
    for seen2
  proof -
    from Cons.IH[OF that(1)] obtain new where
      "sold' = sold @ new"
      "s' = s\<lparr> cash := cash s + (\<Sum>t\<leftarrow>new. sell_net_income (proceeds t)),
                holdings := filter (\<lambda>ca. fst ca \<notin> codes_of new) (holdings s),
                trade_history := trade_history s @ new \<rparr>"
      "\<forall>t\<in>set new. sold_from P s ds seen2 t" by blast
    then show ?thesis using that(2) by (intro exI[of _ new]) (auto intro: sold_from_skip)
  qed
  show ?case
  proof (cases "sd_action d = Some ''sell''")
    case False
    with Cons.prems show ?thesis by (intro skip[of seen]) auto
  next
    case sell: True
    show ?thesis
    proof (cases "sd_code d")
      case None
      with sell Cons.prems show ?thesis by (intro skip[of seen]) auto
    next
      case (Some code)
      show ?thesis
      proof (cases "code = [] \<or> code \<in> set seen")
        case True
        with sell Some Cons.prems show ?thesis by (intro skip[of seen]) (auto split: if_splits)
      next
        case fresh: False
        show ?thesis
        proof (cases "holding_at s code")
          case None
          with sell Some fresh Cons.prems show ?thesis by (intro skip[of "code # seen"]) auto
        next
          case (Some h)
          note h = this
          show ?thesis
          proof (cases "hold_days_of h = 0")
            case True
            with sell \<open>sd_code d = Some code\<close> h fresh Cons.prems show ?thesis
              by (intro skip[of "code # seen"]) auto
          next
            case days: False
            from sell \<open>sd_code d = Some code\<close> h fresh days Cons.prems
            obtain s1 t where sh: "sell_holding P s code h d = Inr (s1, t)"
              and rest: "sells_loop P ds (code # seen) (sold @ [t]) s1 = Inr (s', sold')"
              by (auto split: sum.splits)
            from sell_holding_Inr[OF sh] obtain p where
              p: "h_current_price h = Some p" "of_int (h_amount h) * h_cost h \<noteq> 0"
                 "t = sell_trade_record P (trade_date s) code h p d"
              and s1: "s1 = s\<lparr> cash := cash s + sell_net_income (of_int (h_amount h) * p),
                      holdings := AList.delete code (holdings s),
                      trade_history := trade_history s @ [t] \<rparr>" by blast
            from Cons.IH[OF rest] obtain new where
              new: "sold' = (sold @ [t]) @ new"
              "s' = s1\<lparr> cash := cash s1 + (\<Sum>t\<leftarrow>new. sell_net_income (proceeds t)),
                holdings := filter (\<lambda>ca. fst ca \<notin> codes_of new) (holdings s1),
                trade_history := trade_history s1 @ new \<rparr>"
              "\<forall>t\<in>set new. sold_from P s1 ds (code # seen) t" by blast
            have t_ok: "sold_from P s (d # ds) seen t"
              unfolding sold_from_def using sell \<open>sd_code d = Some code\<close> h fresh days p
              by (intro exI[of _ code] exI[of _ h] exI[of _ p] exI[of _ d]) auto
            have others: "\<forall>t\<in>set new. sold_from P s (d # ds) seen t"
              using new(3) unfolding s1 by (auto intro: sold_from_step)
            have filt: "filter (\<lambda>ca. fst ca \<notin> codes_of new) (AList.delete code (holdings s))
                  = filter (\<lambda>ca. fst ca \<notin> codes_of (t # new)) (holdings s)"
              using p(3) by (auto simp: AList.delete_eq intro: filter_cong)
            show ?thesis
              apply (rule exI[of _ "t # new"])
              using new(1,2) t_ok others filt p(3) unfolding s1
              by (simp add: add.assoc)
          qed
        qed
      qed
    qed
  qed
qed

lemma execute_sells_Inr:
  assumes "execute_sells P s = Inr s'"
  shows "s' = s\<lparr> cash := cash s + (\<Sum>t\<leftarrow>sell_trades s'. sell_net_income (proceeds t)),
                  holdings := filter (\<lambda>ca. fst ca \<notin> codes_of (sell_trades s')) (holdings s),
                  sell_trades := sell_trades s',
                  trade_history := trade_history s @ sell_trades s' \<rparr>
         \<and> (\<forall>t\<in>set (sell_trades s'). sold_from P s (sell_analysis s) [] t)"
proof -
  from assms obtain s1 sold where
    loop: "sells_loop P (sell_analysis s) [] [] s = Inr (s1, sold)"
    and s': "s' = s1\<lparr> sell_trades := sold \<rparr>"
    by (auto simp: execute_sells_def split: sum.splits)
  from sells_loop_Inr[OF loop] have
    "s1 = s\<lparr> cash := cash s + (\<Sum>t\<leftarrow>sold. sell_net_income (proceeds t)),
             holdings := filter (\<lambda>ca. fst ca \<notin> codes_of sold) (holdings s),
             trade_history := trade_history s @ sold \<rparr>"
    and "\<forall>t\<in>set sold. sold_from P s (sell_analysis s) [] t"
    by auto
  then show ?thesis unfolding s' by simp
qed

lemma ex_sell_run: "execute_sells ex_provider ex_sell_state = Inr ex_sold_state"
  by (simp add: execute_sells_def ex_sell_state_def ex_sold_state_def ex_sell_decision_def
      holding_at_def hold_days_of_def ex_holding_def sell_holding_def sell_net_income_def
      sell_commission_def sell_stamp_tax_def ex_sell_trade_def AList.delete_eq Let_def)

text \<open>
  Claim C2. Every sell that \<^verbatim>\<open>_execute_sells\<close> executes sells a holding of amount \<open>a\<close>
  at its close price \<open>p\<close> with average cost \<open>c\<close>; with \<open>total = a * p\<close> the commission
  is \<open>max (total * 0.0003) 5\<close>, the stamp tax is \<open>total * 0.001\<close>, the net income is
  \<open>total - commission - stamp_tax\<close>, the recorded profit is \<open>net_income - c * a\<close> and the
  recorded profit percentage is that profit divided by \<open>c * a\<close>, times 100. Cash grows by
  exactly the net income of every sell of the node. (A sell whose \<open>c * a\<close> is zero is not
  executed: the division raises.)
\<close>

theorem execute_sells_fees:
  assumes "execute_sells P s = Inr s'"
  shows "cash s' = cash s + (\<Sum>t\<leftarrow>sell_trades s'. sell_net_income (proceeds t))
       \<and> (\<forall>t\<in>set (sell_trades s'). \<exists>code h p.
             t_code t = Some code \<and> holding_at s code = Some h \<and> h_current_price h = Some p
           \<and> (let a = of_int (h_amount h); c = h_cost h; total = a * p;
                  commission = max (total * 0.0003) 5; stamp_tax = total * 0.001;
                  net_income = total - commission - stamp_tax
              in t_amount t = Some (h_amount h) \<and> t_price t = Some p \<and> t_total t = Some total
               \<and> sell_net_income (proceeds t) = net_income
               \<and> c * a \<noteq> 0
               \<and> t_profit t = Some (net_income - c * a)
               \<and> t_profit_pct t = Some ((net_income - c * a) / (c * a) * 100)))"
proof -
  from execute_sells_Inr[OF assms] have
    st: "s' = s\<lparr> cash := cash s + (\<Sum>t\<leftarrow>sell_trades s'. sell_net_income (proceeds t)),
                  holdings := filter (\<lambda>ca. fst ca \<notin> codes_of (sell_trades s')) (holdings s),
                  sell_trades := sell_trades s',
                  trade_history := trade_history s @ sell_trades s' \<rparr>"
    and all: "\<forall>t\<in>set (sell_trades s'). sold_from P s (sell_analysis s) [] t" by auto
  have "cash s' = cash s + (\<Sum>t\<leftarrow>sell_trades s'. sell_net_income (proceeds t))"
    by (subst st) simp
  moreover have "\<exists>code h p.
             t_code t = Some code \<and> holding_at s code = Some h \<and> h_current_price h = Some p
           \<and> (let a = of_int (h_amount h); c = h_cost h; total = a * p;
                  commission = max (total * 0.0003) 5; stamp_tax = total * 0.001;
                  net_income = total - commission - stamp_tax
              in t_amount t = Some (h_amount h) \<and> t_price t = Some p \<and> t_total t = Some total
               \<and> sell_net_income (proceeds t) = net_income
               \<and> c * a \<noteq> 0
               \<and> t_profit t = Some (net_income - c * a)
               \<and> t_profit_pct t = Some ((net_income - c * a) / (c * a) * 100))"
    if "t \<in> set (sell_trades s')" for t
  proof -
    from all that obtain code h p d where
      *: "holding_at s code = Some h" "h_current_price h = Some p"
         "of_int (h_amount h) * h_cost h \<noteq> 0"
         "t = sell_trade_record P (trade_date s) code h p d"
      unfolding sold_from_def by blast
    show ?thesis
      apply (rule exI[of _ code], rule exI[of _ h], rule exI[of _ p])
      using *
      by (simp add: sell_trade_record_def Let_def sell_net_income_def sell_commission_def
          sell_stamp_tax_def proceeds_def mult.commute)
  qed
  ultimately show ?thesis by blast
qed

theorem execute_sells_fees_witness:
  "execute_sells ex_provider ex_sell_state = Inr ex_sold_state
   \<and> cash ex_sold_state = cash ex_sell_state + sell_net_income 2200
   \<and> sell_net_income 2200 = 2192.8"
proof -
  have run: "execute_sells ex_provider ex_sell_state = Inr ex_sold_state"
    by (simp add: execute_sells_def ex_sell_state_def ex_sold_state_def ex_sell_decision_def
      holding_at_def hold_days_of_def ex_holding_def sell_holding_def sell_net_income_def
      sell_commission_def sell_stamp_tax_def ex_sell_trade_def AList.delete_eq Let_def)
  from execute_sells_fees[OF run]
  have "cash ex_sold_state = cash ex_sell_state + (\<Sum>t\<leftarrow>sell_trades ex_sold_state. sell_net_income (proceeds t))"
    by blast
  then have "cash ex_sold_state = cash ex_sell_state + sell_net_income 2200"
    by (simp add: ex_sold_state_def ex_sell_trade_def ex_holding_def)
  moreover have "sell_net_income 2200 = 2192.8"
    by (simp add: sell_net_income_def sell_commission_def sell_stamp_tax_def)
  ultimately show ?thesis using run by blast
qed

section \<open>Properties of \<^verbatim>\<open>_execute_buys\<close>\<close>

lemma buy_one_Some:
  assumes "buy_one P s code d = Some (s', t)"
  shows "\<exists>amount price.
        get_daily_price P code (trade_date s) = Some price \<and> 0 < price
      \<and> 100 \<le> amount \<and> 100 dvd amount
      \<and> amount \<le> (case bd_suggested_amount d of None \<Rightarrow> 100 | Some n \<Rightarrow> n)
      \<and> of_int amount * price \<le> total_assets s * 0.40
      \<and> of_int amount * price + max (of_int amount * price * 0.0003) 5 \<le> cash s
      \<and> t = buy_trade_record P (trade_date s) code amount price d
              (cash s - (of_int amount * price + max (of_int amount * price * 0.0003) 5))
              (total_assets s)
      \<and> s' = s\<lparr> cash := cash s - (of_int amount * price + max (of_int amount * price * 0.0003) 5),
                holdings := AList.update code (next_addr s) (holdings s),
                heap := (heap s)(next_addr s \<mapsto> buy_holding_record P (trade_date s) code amount price d),
                next_addr := Suc (next_addr s),
                trade_history := trade_history s @ [t] \<rparr>"
proof -
  from assms obtain price where price: "get_daily_price P code (trade_date s) = Some price"
    by (auto simp: buy_one_def Let_def split: option.splits)
  define sug where "sug = (case bd_suggested_amount d of None \<Rightarrow> (100::int) | Some n \<Rightarrow> n)"
  define amount where "amount = (min sug (py_int (cash s / price / 100) * 100) div 100) * 100"
  have le: "amount \<le> sug"
  proof -
    have "amount \<le> min sug (py_int (cash s / price / 100) * 100)"
    proof -
      have "\<And>x::int. x div 100 * 100 \<le> x" by presburger
      then show ?thesis unfolding amount_def by blast
    qed
    then show ?thesis by simp
  qed
  have dvd: "100 dvd amount" unfolding amount_def by simp
  define total_cost where "total_cost = of_int amount * price + max (of_int amount * price * 0.0003) 5"
  define s1 where "s1 = s\<lparr> cash := cash s - total_cost,
                holdings := AList.update code (next_addr s) (holdings s),
                heap := (heap s)(next_addr s \<mapsto> buy_holding_record P (trade_date s) code amount price d),
                next_addr := Suc (next_addr s),
                trade_history := trade_history s @
                   [buy_trade_record P (trade_date s) code amount price d (cash s - total_cost) (total_assets s)] \<rparr>"
  have eq: "buy_one P s code d =
     (if price \<le> 0 then None
      else if amount < 100 then None
      else if total_cost > cash s then None
      else if of_int amount * price > total_assets s * 0.40 then None
      else Some (s1, buy_trade_record P (trade_date s) code amount price d (cash s - total_cost) (total_assets s)))"
    unfolding buy_one_def Let_def price sug_def amount_def total_cost_def s1_def by simp
  from assms have
    c: "\<not> price \<le> 0" "\<not> amount < 100" "\<not> total_cost > cash s"
       "\<not> of_int amount * price > total_assets s * 0.40"
    and r: "s' = s1" "t = buy_trade_record P (trade_date s) code amount price d (cash s - total_cost) (total_assets s)"
    unfolding eq by (simp_all split: if_splits)
  show ?thesis
    apply (intro exI[of _ amount] exI[of _ price])
    using price c r le dvd unfolding s1_def total_cost_def sug_def
    by simp
qed


lemma bought_under_skip:
  "bought_under P s ds t \<Longrightarrow> bought_under P s (d # ds) t"
  unfolding bought_under_def by (elim exE conjE, intro exI conjI) auto

lemma bought_under_step:
  assumes "bought_under P s1 ds t"
    and "trade_date s1 = trade_date s" "total_assets s1 = total_assets s" "cash s1 \<le> cash s"
  shows "bought_under P s (d # ds) t"
  using assms unfolding bought_under_def
  by (elim exE conjE, intro exI conjI) (auto simp del: of_int_mult)

lemma buy_trade_record_total_cost [simp]:
  "buy_total_cost (buy_trade_record P dt code amount price d ca a)
     = of_int amount * price + max (of_int amount * price * 0.0003) 5"
  by (simp add: buy_total_cost_def buy_trade_record_def Let_def)

lemma buys_loop_inv:
  "buys_loop P ds seen bought s = (s', bought') \<Longrightarrow>
   \<exists>new. bought' = bought @ new
      \<and> s' = s\<lparr> cash := cash s - (\<Sum>t\<leftarrow>new. buy_total_cost t),
                holdings := holdings s', heap := heap s', next_addr := next_addr s',
                trade_history := trade_history s @ new \<rparr>
      \<and> cash s' \<le> cash s \<and> (0 \<le> cash s \<longrightarrow> 0 \<le> cash s')
      \<and> (\<forall>t\<in>set new. bought_under P s ds t)"
proof (induction ds arbitrary: seen bought s)
  case Nil
  then show ?case by (intro exI[of _ "[]"]) simp
next
  case (Cons d ds)
  let ?goal = "\<exists>new. bought' = bought @ new
      \<and> s' = s\<lparr> cash := cash s - (\<Sum>t\<leftarrow>new. buy_total_cost t),
                holdings := holdings s', heap := heap s', next_addr := next_addr s',
                trade_history := trade_history s @ new \<rparr>
      \<and> cash s' \<le> cash s \<and> (0 \<le> cash s \<longrightarrow> 0 \<le> cash s')
      \<and> (\<forall>t\<in>set new. bought_under P s (d # ds) t)"
  have skip: ?goal if "buys_loop P ds seen2 bought s = (s', bought')" for seen2
  proof -
    from Cons.IH[OF that] obtain new where
      "bought' = bought @ new"
      "s' = s\<lparr> cash := cash s - (\<Sum>t\<leftarrow>new. buy_total_cost t),
                holdings := holdings s', heap := heap s', next_addr := next_addr s',
                trade_history := trade_history s @ new \<rparr>"
      "cash s' \<le> cash s" "0 \<le> cash s \<longrightarrow> 0 \<le> cash s'"
      "\<forall>t\<in>set new. bought_under P s ds t" by blast
    then show ?thesis by (intro exI[of _ new]) (auto intro: bought_under_skip)
  qed
  show ?case
  proof (cases "bd_action d = Some ''buy''")
    case False
    with Cons.prems show ?thesis by (intro skip[of seen]) auto
  next
    case buy: True
    show ?thesis
    proof (cases "bd_code d")
      case None
      with buy Cons.prems show ?thesis by (intro skip[of seen]) auto
    next
      case (Some code)
      note code = this
      show ?thesis
      proof (cases "code = [] \<or> code \<in> set seen")
        case True
        with buy code Cons.prems show ?thesis by (intro skip[of seen]) (auto split: if_splits)
      next
        case fresh: False
        show ?thesis
        proof (cases "buy_one P s code d")
          case None
          with buy code fresh Cons.prems show ?thesis by (intro skip[of "code # seen"]) auto
        next
          case (Some r)
          obtain s1 t where r: "r = (s1, t)" by (cases r)
          from buy code fresh Some r Cons.prems
          have rest: "buys_loop P ds (code # seen) (bought @ [t]) s1 = (s', bought')" by auto
          from buy_one_Some[OF Some[unfolded r]] obtain amount price where
            b: "get_daily_price P code (trade_date s) = Some price" "0 < price"
               "100 \<le> amount" "100 dvd amount"
               "amount \<le> (case bd_suggested_amount d of None \<Rightarrow> 100 | Some n \<Rightarrow> n)"
               "of_int amount * price \<le> total_assets s * 0.40"
               "of_int amount * price + max (of_int amount * price * 0.0003) 5 \<le> cash s"
               "t = buy_trade_record P (trade_date s) code amount price d
                  (cash s - (of_int amount * price + max (of_int amount * price * 0.0003) 5))
                  (total_assets s)"
            and s1: "s1 = s\<lparr> cash := cash s - (of_int amount * price + max (of_int amount * price * 0.0003) 5),
                holdings := AList.update code (next_addr s) (holdings s),
                heap := (heap s)(next_addr s \<mapsto> buy_holding_record P (trade_date s) code amount price d),
                next_addr := Suc (next_addr s),
                trade_history := trade_history s @ [t] \<rparr>" by blast
          define tc where "tc = of_int amount * price + max (of_int amount * price * 0.0003) 5"
          have tc_pos: "0 \<le> tc"
          proof -
            have "0 \<le> of_int amount * price" using b(2,3) by simp
            then show ?thesis unfolding tc_def by simp
          qed
          have tc_le: "tc \<le> cash s" using b(7) unfolding tc_def .
          have cash1: "cash s1 = cash s - tc" unfolding s1 tc_def by simp
          have btc: "buy_total_cost t = tc" unfolding b(8) tc_def by simp
          from Cons.IH[OF rest] obtain new where
            new: "bought' = (bought @ [t]) @ new"
            "s' = s1\<lparr> cash := cash s1 - (\<Sum>t\<leftarrow>new. buy_total_cost t),
                holdings := holdings s', heap := heap s', next_addr := next_addr s',
                trade_history := trade_history s1 @ new \<rparr>"
            "cash s' \<le> cash s1" "0 \<le> cash s1 \<longrightarrow> 0 \<le> cash s'"
            "\<forall>t\<in>set new. bought_under P s1 ds t" by blast
          have t_ok: "bought_under P s (d # ds) t"
            unfolding bought_under_def
            apply (rule exI[of _ code], rule exI[of _ amount], rule exI[of _ price],
                   rule exI[of _ d], rule exI[of _ "cash s"])
            using code b by simp
          have others: "\<forall>t\<in>set new. bought_under P s (d # ds) t"
          proof
            fix u assume "u \<in> set new"
            with new(5) have "bought_under P s1 ds u" by blast
            moreover have "trade_date s1 = trade_date s" "total_assets s1 = total_assets s"
              unfolding s1 by simp_all
            moreover have "cash s1 \<le> cash s" using cash1 tc_pos by simp
            ultimately show "bought_under P s (d # ds) u" by (rule bought_under_step)
          qed
          have c1: "cash s' \<le> cash s" using new(3) cash1 tc_pos by simp
          have c2: "0 \<le> cash s \<longrightarrow> 0 \<le> cash s'" using new(4) cash1 tc_le by simp
          have st: "s' = s\<lparr> cash := cash s - (\<Sum>t\<leftarrow>t # new. buy_total_cost t),
                holdings := holdings s', heap := heap s', next_addr := next_addr s',
                trade_history := trade_history s @ (t # new) \<rparr>"
            apply (subst new(2)) unfolding s1 using btc unfolding tc_def by (simp add: algebra_simps)
          show ?thesis
            apply (rule exI[of _ "t # new"])
            using new(1) st c1 c2 t_ok others by simp
        qed
      qed
    qed
  qed
qed



lemma holding_at_buy_trades [simp]:
  "holding_at (s\<lparr> buy_trades := b \<rparr>) c = holding_at s c"
  by (simp add: holding_at_def split: option.splits)

lemma holding_at_sell_analysis [simp]:
  "holding_at (s\<lparr> sell_analysis := b \<rparr>) c = holding_at s c"
  by (simp add: holding_at_def split: option.splits)



section \<open>The T+1 rule\<close>


lemma sell_net_income_nonneg: "0 \<le> sell_net_income x \<longleftrightarrow> 5 \<le> x * 0.999"
  unfolding sell_net_income_def sell_commission_def sell_stamp_tax_def max_def
  by (auto simp: mult.commute)







section \<open>Buying a code that is already held\<close>

lemmas ex_buy_eval = ex_cfg_def ex_buy_provider_def ex_fresh_state_def ex_buy_def
  execute_buys_def buy_one_def py_int_def Let_def holding_at_def

text \<open>
  Claim C3 says that a buy of a code that is already held is merged into the holding:
  the amounts add up and the cost is the average over the pooled cost. The node assigns a
  new holding under the code instead. In the example 100 shares are held at a cost of
  10.00 and 100 more are bought at 12.00: afterwards the holding is 100 shares at 12.00,
  not 200 at 11.00, and the cash has paid 1205 for the second 100.
\<close>

theorem buy_overwrites_existing_holding:
  "holding_at ex_merge_state ''000001.SZ'' = Some ex_held
   \<and> h_amount ex_held = 100 \<and> h_cost ex_held = 10
   \<and> holding_at (execute_buys ex_cfg ex_buy_provider ex_merge_state) ''000001.SZ''
       = Some (buy_holding_record ex_buy_provider ''20250108'' ''000001.SZ'' 100 12
                 (ex_buy ''000001.SZ'' 100))
   \<and> h_amount (buy_holding_record ex_buy_provider ''20250108'' ''000001.SZ'' 100 12
                 (ex_buy ''000001.SZ'' 100)) = 100
   \<and> h_cost (buy_holding_record ex_buy_provider ''20250108'' ''000001.SZ'' 100 12
                 (ex_buy ''000001.SZ'' 100)) = 12
   \<and> cash (execute_buys ex_cfg ex_buy_provider ex_merge_state) = cash ex_merge_state - 1205"
  by (simp add: ex_buy_eval ex_merge_state_def ex_held_def buy_holding_record_def)

section \<open>The exit plan\<close>

lemma normalize_buys_no_exit_plan:
  "d \<in> set (normalize_buys C ds) \<Longrightarrow> bd_exit_plan d = None"
  unfolding normalize_buys_def
  by (induction ds) (auto simp: normalize_buy_def Let_def split: option.splits if_splits)

text \<open>
  Claim C8 says that the exit plan which the model returned with a buy decision is stored
  on the holding and on the buy trade. \<^verbatim>\<open>_analyze_candidates\<close> builds the normalized
  decision without the key \<^verbatim>\<open>exit_plan\<close>, so \<^verbatim>\<open>_execute_buys\<close> finds none and
  stores the placeholder. In the example the model answers with a profit target of
  \<^verbatim>\<open>+10%\<close>; the holding and the trade carry the placeholder in all three fields.
\<close>

theorem exit_plan_not_persisted:
  "analyze_candidates ex_cfg ex_buy_env ((ex_fresh_state 10000 [])\<lparr> candidates := [''600000.SH''] \<rparr>)
     = Inr ex_analyzed_state
   \<and> map bd_exit_plan (buy_analysis ex_analyzed_state) = [None]
   \<and> map_option ep_profit_target (rb_exit_plan ex_raw_buy) = Some (Some ''+10%'')
   \<and> map_option h_profit_target
        (holding_at (execute_buys ex_cfg ex_buy_provider ex_analyzed_state) ''600000.SH'')
       = Some (Some not_set)
   \<and> map_option h_stop_loss
        (holding_at (execute_buys ex_cfg ex_buy_provider ex_analyzed_state) ''600000.SH'')
       = Some (Some not_set)
   \<and> map_option h_invalidation
        (holding_at (execute_buys ex_cfg ex_buy_provider ex_analyzed_state) ''600000.SH'')
       = Some (Some not_set)
   \<and> map t_profit_target (buy_trades (execute_buys ex_cfg ex_buy_provider ex_analyzed_state))
       = [Some not_set]
   \<and> map t_stop_loss (buy_trades (execute_buys ex_cfg ex_buy_provider ex_analyzed_state))
       = [Some not_set]
   \<and> map t_invalidation (buy_trades (execute_buys ex_cfg ex_buy_provider ex_analyzed_state))
       = [Some not_set]
   \<and> not_set \<noteq> ''+10%''"
  by (simp add: ex_buy_eval ex_analyzed_state_def ex_raw_buy_def ex_buy_env_def analyze_candidates_def
      normalize_buys_def normalize_buy_def str_or_def
      buy_holding_record_def buy_trade_record_def exit_plan_of_def empty_exit_plan_def
      or_not_set_def not_set_def)

section \<open>The risk gates of \<^verbatim>\<open>_execute_buys\<close>\<close>

text \<open>
  Claim C4, as worded, fails: with \<^verbatim>\<open>max_holdings = 1\<close> and nothing held, two buy
  decisions are both executed. When the second is processed one position is held, so the
  five gates evaluated at that moment do not all hold; the node ends with two holdings.
\<close>

theorem risk_gates_counterexample:
  "buy_one ex_buy_provider ex_two_buys_state ''600000.SH'' (ex_buy ''600000.SH'' 100) \<noteq> None
   \<and> buy_one ex_buy_provider ex_after_first_buy ''600036.SH'' (ex_buy ''600036.SH'' 100) \<noteq> None
   \<and> \<not> spec_risk_gates ex_one_cfg ex_after_first_buy 100 10
   \<and> max_holdings ex_one_cfg = 1
   \<and> length (holdings ex_after_first_buy) = 1
   \<and> length (buy_trades (execute_buys ex_one_cfg ex_buy_provider ex_two_buys_state)) = 2
   \<and> length (holdings (execute_buys ex_one_cfg ex_buy_provider ex_two_buys_state)) = 2"
  by (simp add: ex_buy_eval ex_one_cfg_def ex_two_buys_state_def ex_after_first_buy_def
      spec_risk_gates_def)


lemma buys_loop_none:
  "buys_loop P ds seen bought s = (s', bought') \<Longrightarrow> length bought' = length bought \<Longrightarrow> s' = s"
proof (induction ds arbitrary: seen bought s)
  case Nil
  then show ?case by simp
next
  case (Cons d ds)
  show ?case
  proof (cases "bd_action d = Some ''buy''")
    case False
    with Cons.prems Cons.IH[of seen bought s] show ?thesis by simp
  next
    case buy: True
    show ?thesis
    proof (cases "bd_code d")
      case None
      with buy Cons.prems Cons.IH[of seen bought s] show ?thesis by simp
    next
      case (Some code)
      note code = this
      show ?thesis
      proof (cases "code = [] \<or> code \<in> set seen")
        case True
        with buy code Cons.prems Cons.IH[of seen bought s] show ?thesis by (auto split: if_splits)
      next
        case fresh: False
        show ?thesis
        proof (cases "buy_one P s code d")
          case None
          with buy code fresh Cons.prems Cons.IH[of "code # seen" bought s] show ?thesis by simp
        next
          case (Some r)
          obtain s1 t where r: "r = (s1, t)" by (cases r)
          from buy code fresh Some r Cons.prems
          have rest: "buys_loop P ds (code # seen) (bought @ [t]) s1 = (s', bought')" by auto
          from buys_loop_inv[OF rest] obtain new where "bought' = (bought @ [t]) @ new" by blast
          with Cons.prems(2) show ?thesis by simp
        qed
      qed
    qed
  qed
qed

lemma execute_buys_inv:
  "\<exists>new. buy_trades (execute_buys C P s) = new
      \<and> trade_history (execute_buys C P s) = trade_history s @ new
      \<and> cash (execute_buys C P s) = cash s - (\<Sum>t\<leftarrow>new. buy_total_cost t)
      \<and> (0 \<le> cash s \<longrightarrow> 0 \<le> cash (execute_buys C P s))
      \<and> (new \<noteq> [] \<longrightarrow> int (length (holdings s)) < max_holdings C \<and> initial_capital s * 0.05 \<le> cash s)
      \<and> (new = [] \<longrightarrow> execute_buys C P s = s\<lparr> buy_trades := [] \<rparr>)
      \<and> (\<forall>t\<in>set new. bought_under P s (buy_analysis s) t)"
proof (cases "int (length (holdings s)) \<ge> max_holdings C \<or> cash s < initial_capital s * 0.05")
  case True
  then show ?thesis by (auto simp: execute_buys_def Let_def)
next
  case False
  obtain s1 bought where loop: "buys_loop P (buy_analysis s) [] [] s = (s1, bought)"
    by (cases "buys_loop P (buy_analysis s) [] [] s")
  with False have eb: "execute_buys C P s = s1\<lparr> buy_trades := bought \<rparr>"
    by (simp add: execute_buys_def Let_def)
  from buys_loop_inv[OF loop] have
    st: "s1 = s\<lparr> cash := cash s - (\<Sum>t\<leftarrow>bought. buy_total_cost t),
                holdings := holdings s1, heap := heap s1, next_addr := next_addr s1,
                trade_history := trade_history s @ bought \<rparr>"
    and c: "0 \<le> cash s \<longrightarrow> 0 \<le> cash s1"
    and all: "\<forall>t\<in>set bought. bought_under P s (buy_analysis s) t" by auto
  have th: "trade_history s1 = trade_history s @ bought" by (subst st) simp
  have ca: "cash s1 = cash s - (\<Sum>t\<leftarrow>bought. buy_total_cost t)" by (subst st) simp
  have none: "bought = [] \<longrightarrow> s1 = s" using buys_loop_none[OF loop] by simp
  show ?thesis unfolding eb using th ca c all none False by auto
qed

text \<open>
  Claim C4, amended. If the node executes any buy, then on entry to the node
  \<^verbatim>\<open>holdings_count < max_holdings\<close> and \<^verbatim>\<open>cash \<ge> 5%\<close> of the initial capital; if it
  executes none, the state is unchanged. Every buy executed has an amount of at least
  100 that is a multiple of 100, a stock cost of at most 40% of the state's
  \<^verbatim>\<open>total_assets\<close>, and a total cost (stock cost plus commission) of at most the cash at
  the moment the decision is processed. A decision that fails a check of the loop is
  skipped: the loop goes on with the same state and the same trades.
\<close>

theorem execute_buys_gates:
  "(buy_trades (execute_buys C P s) \<noteq> [] \<longrightarrow>
      int (length (holdings s)) < max_holdings C \<and> initial_capital s * 0.05 \<le> cash s)
   \<and> (buy_trades (execute_buys C P s) = [] \<longrightarrow> execute_buys C P s = s\<lparr> buy_trades := [] \<rparr>)
   \<and> trade_history (execute_buys C P s) = trade_history s @ buy_trades (execute_buys C P s)
   \<and> (\<forall>t\<in>set (buy_trades (execute_buys C P s)). \<exists>amount price cash_now.
         t_action t = Some ''buy'' \<and> t_amount t = Some amount \<and> t_price t = Some price
       \<and> t_cash_before t = Some cash_now
       \<and> 100 \<le> amount \<and> 100 dvd amount
       \<and> of_int amount * price \<le> total_assets s * 0.40
       \<and> of_int amount * price + max (of_int amount * price * 0.0003) 5 \<le> cash_now
       \<and> cash_now \<le> cash s)
   \<and> (bd_code d = Some code \<and> buy_one P s code d = None \<longrightarrow>
         buys_loop P (d # ds) seen bought s =
         buys_loop P ds (if bd_action d = Some ''buy'' \<and> code \<noteq> [] \<and> code \<notin> set seen
                         then code # seen else seen) bought s)"
proof -
  from execute_buys_inv[of C P s] have
    a: "buy_trades (execute_buys C P s) \<noteq> [] \<longrightarrow>
          int (length (holdings s)) < max_holdings C \<and> initial_capital s * 0.05 \<le> cash s"
    and b: "buy_trades (execute_buys C P s) = [] \<longrightarrow> execute_buys C P s = s\<lparr> buy_trades := [] \<rparr>"
    and c: "trade_history (execute_buys C P s) = trade_history s @ buy_trades (execute_buys C P s)"
    and all: "\<forall>t\<in>set (buy_trades (execute_buys C P s)). bought_under P s (buy_analysis s) t"
    by auto
  have e: "\<exists>amount price cash_now.
         t_action t = Some ''buy'' \<and> t_amount t = Some amount \<and> t_price t = Some price
       \<and> t_cash_before t = Some cash_now
       \<and> 100 \<le> amount \<and> 100 dvd amount
       \<and> of_int amount * price \<le> total_assets s * 0.40
       \<and> of_int amount * price + max (of_int amount * price * 0.0003) 5 \<le> cash_now
       \<and> cash_now \<le> cash s"
    if "t \<in> set (buy_trades (execute_buys C P s))" for t
  proof -
    from all that obtain code amount price d cash_now where
      *: "100 \<le> amount" "100 dvd amount"
         "of_int amount * price \<le> total_assets s * 0.40"
         "of_int amount * price + max (of_int amount * price * 0.0003) 5 \<le> cash_now"
         "cash_now \<le> cash s"
         "t = buy_trade_record P (trade_date s) code amount price d
              (cash_now - (of_int amount * price + max (of_int amount * price * 0.0003) 5))
              (total_assets s)"
      unfolding bought_under_def by blast
    show ?thesis
      apply (rule exI[of _ amount], rule exI[of _ price], rule exI[of _ cash_now])
      using * by (simp add: buy_trade_record_def Let_def)
  qed
  have f: "buys_loop P (d # ds) seen bought s =
         buys_loop P ds (if bd_action d = Some ''buy'' \<and> code \<noteq> [] \<and> code \<notin> set seen
                         then code # seen else seen) bought s"
    if "bd_code d = Some code" "buy_one P s code d = None"
    using that by simp
  from a b c e f show ?thesis by blast
qed

lemma ex_gated_run:
  "execute_buys ex_one_cfg ex_buy_provider ex_merge_state = ex_merge_state\<lparr> buy_trades := [] \<rparr>"
  by (simp add: ex_buy_eval ex_one_cfg_def ex_merge_state_def)

lemma ex_unlisted: "buy_one ex_buy_provider ex_two_buys_state ''UNLISTED'' (ex_buy ''UNLISTED'' 100) = None"
  by (simp add: ex_buy_eval ex_two_buys_state_def)

theorem execute_buys_gates_witness:
  "buy_trades (execute_buys ex_cfg ex_buy_provider ex_two_buys_state) \<noteq> []
   \<and> int (length (holdings ex_two_buys_state)) < max_holdings ex_cfg
   \<and> initial_capital ex_two_buys_state * 0.05 \<le> cash ex_two_buys_state
   \<and> buy_trades (execute_buys ex_one_cfg ex_buy_provider ex_merge_state) = []
   \<and> execute_buys ex_one_cfg ex_buy_provider ex_merge_state = ex_merge_state\<lparr> buy_trades := [] \<rparr>
   \<and> bd_code (ex_buy ''UNLISTED'' 100) = Some ''UNLISTED''
   \<and> buy_one ex_buy_provider ex_two_buys_state ''UNLISTED'' (ex_buy ''UNLISTED'' 100) = None
   \<and> buys_loop ex_buy_provider [ex_buy ''UNLISTED'' 100] [] [] ex_two_buys_state
        = (ex_two_buys_state, [])"
proof -
  have t: "buy_trades (execute_buys ex_cfg ex_buy_provider ex_two_buys_state) \<noteq> []"
    by (simp add: ex_buy_eval ex_two_buys_state_def)
  have n: "buy_trades (execute_buys ex_one_cfg ex_buy_provider ex_merge_state) = []"
    by (simp add: ex_gated_run)
  have c: "bd_code (ex_buy ''UNLISTED'' 100) = Some ''UNLISTED''"
    by (simp add: ex_buy_def)
  from execute_buys_gates[of ex_cfg ex_buy_provider ex_two_buys_state
         "ex_buy ''UNLISTED'' 100" "''UNLISTED''" "[]" "[]" "[]"] t c ex_unlisted
  have "int (length (holdings ex_two_buys_state)) < max_holdings ex_cfg
      \<and> initial_capital ex_two_buys_state * 0.05 \<le> cash ex_two_buys_state"
    and "buys_loop ex_buy_provider [ex_buy ''UNLISTED'' 100] [] [] ex_two_buys_state
        = (ex_two_buys_state, [])"
    by (simp_all add: ex_buy_def)
  moreover from execute_buys_gates[of ex_one_cfg ex_buy_provider ex_merge_state] n
  have "execute_buys ex_one_cfg ex_buy_provider ex_merge_state = ex_merge_state\<lparr> buy_trades := [] \<rparr>"
    by blast
  ultimately show ?thesis using t n c ex_unlisted by blast
qed

section \<open>The sign of the cash\<close>

lemmas day2_eval = ex_day2_sold_def ex_day2_evaluated_def ex_day2_priced_def ex_day1_def
  ex_three_buys_state_def ex_crash_provider_def ex_quiet_env_def ex_buy_eval
  update_holdings_prices_def update_holding_def hold_days_of_def holdings_value_def holding_value_def
  evaluate_holdings_def forced_sells_def forced_sell_def
  buy_holding_record_def buy_trade_record_def exit_plan_of_def empty_exit_plan_def or_not_set_def
  stock_name_def unknown_name_def not_set_def
  execute_sells_def sell_holding_def sell_net_income_def sell_commission_def sell_stamp_tax_def
  sell_trade_record_def AList.delete_eq

text \<open>
  Claim C9, as worded, fails: no node checks the sign of the cash and none undoes an
  operation. An account of 3015 buys three lots of 100 shares at 10.00 and is left with
  no cash; the next day the first stock closes at 0.01, the forced stop loss sells the
  lot for 1.00, the commission is 5 and the stamp tax 0.001, and the cash is -4.001.
\<close>

theorem cash_negative_counterexample:
  "0 \<le> cash ex_three_buys_state
   \<and> cash ex_day1 = 0
   \<and> evaluate_holdings ex_cfg ex_crash_provider ex_quiet_env ex_day2_priced = Inr ex_day2_evaluated
   \<and> execute_sells ex_crash_provider ex_day2_evaluated = Inr ex_day2_sold
   \<and> cash ex_day2_sold = - 4.001
   \<and> cash ex_day2_sold < 0"
proof -
  have a: "0 \<le> cash ex_three_buys_state" "cash ex_day1 = 0"
    by (simp_all add: ex_day1_def ex_three_buys_state_def ex_buy_eval)
  have "\<not> isl (evaluate_holdings ex_cfg ex_crash_provider ex_quiet_env ex_day2_priced)"
    by (simp add: day2_eval)
  then have b: "evaluate_holdings ex_cfg ex_crash_provider ex_quiet_env ex_day2_priced
                  = Inr ex_day2_evaluated"
    unfolding ex_day2_evaluated_def by simp
  have "\<not> isl (execute_sells ex_crash_provider ex_day2_evaluated)"
    by (simp add: day2_eval)
  then have c: "execute_sells ex_crash_provider ex_day2_evaluated = Inr ex_day2_sold"
    unfolding ex_day2_sold_def by simp
  have d: "cash ex_day2_sold = - 4.001"
    by (simp add: day2_eval)
  from a b c d show ?thesis by simp
qed

text \<open>
  Claim C9, amended. \<^verbatim>\<open>_execute_buys\<close> never makes the cash negative: a buy is
  executed only if its total cost is at most the cash. \<^verbatim>\<open>_execute_sells\<close> adds the net
  income of every sell to the cash; the net income of gross proceeds \<open>x\<close> is not negative
  exactly when \<open>x * 0.999 \<ge> 5\<close>, so the node does not lower the cash when the proceeds of
  every sell are that large.
\<close>

theorem cash_stays_nonnegative:
  "(0 \<le> cash s \<longrightarrow> 0 \<le> cash (execute_buys C P s))
   \<and> (execute_sells P s = Inr s' \<and> 0 \<le> cash s \<and> (\<forall>t\<in>set (sell_trades s'). 5 \<le> proceeds t * 0.999)
        \<longrightarrow> cash s \<le> cash s' \<and> 0 \<le> cash s')
   \<and> (0 \<le> sell_net_income x \<longleftrightarrow> 5 \<le> x * 0.999)"
proof -
  have a: "0 \<le> cash s \<longrightarrow> 0 \<le> cash (execute_buys C P s)"
    using execute_buys_inv[of C P s] by blast
  have b: "cash s \<le> cash s' \<and> 0 \<le> cash s'"
    if run: "execute_sells P s = Inr s'" and c0: "0 \<le> cash s"
      and big: "\<forall>t\<in>set (sell_trades s'). 5 \<le> proceeds t * 0.999"
  proof -
    from execute_sells_Inr[OF run] have
      st: "s' = s\<lparr> cash := cash s + (\<Sum>t\<leftarrow>sell_trades s'. sell_net_income (proceeds t)),
                  holdings := filter (\<lambda>ca. fst ca \<notin> codes_of (sell_trades s')) (holdings s),
                  sell_trades := sell_trades s',
                  trade_history := trade_history s @ sell_trades s' \<rparr>" by blast
    have ca: "cash s' = cash s + (\<Sum>t\<leftarrow>sell_trades s'. sell_net_income (proceeds t))"
      by (subst st) simp
    have "0 \<le> (\<Sum>t\<leftarrow>sell_trades s'. sell_net_income (proceeds t))"
      using big by (intro sum_list_nonneg) (auto simp: sell_net_income_nonneg)
    with ca c0 show ?thesis by simp
  qed
  from a b sell_net_income_nonneg[of x] show ?thesis by blast
qed

theorem cash_stays_nonnegative_witness:
  "0 \<le> cash ex_three_buys_state
   \<and> 0 \<le> cash (execute_buys ex_cfg ex_buy_provider ex_three_buys_state)
   \<and> execute_sells ex_provider ex_sell_state = Inr ex_sold_state
   \<and> 0 \<le> cash ex_sell_state
   \<and> sell_trades ex_sold_state = [ex_sell_trade]
   \<and> 5 \<le> proceeds ex_sell_trade * 0.999
   \<and> cash ex_sell_state \<le> cash ex_sold_state"
proof -
  have a: "0 \<le> cash ex_three_buys_state" by (simp add: ex_three_buys_state_def ex_fresh_state_def)
  have b: "0 \<le> cash ex_sell_state" by (simp add: ex_sell_state_def)
  have d: "sell_trades ex_sold_state = [ex_sell_trade]" "5 \<le> proceeds ex_sell_trade * 0.999"
    by (simp_all add: ex_sold_state_def ex_sell_trade_def ex_holding_def)
  then have c: "\<forall>t\<in>set (sell_trades ex_sold_state). 5 \<le> proceeds t * 0.999"
    by simp
  from cash_stays_nonnegative[of ex_three_buys_state ex_cfg ex_buy_provider] a
  have "0 \<le> cash (execute_buys ex_cfg ex_buy_provider ex_three_buys_state)" by blast
  moreover from cash_stays_nonnegative[of ex_sell_state _ ex_provider ex_sold_state] ex_sell_run b c
  have "cash ex_sell_state \<le> cash ex_sold_state" by blast
  ultimately show ?thesis using a b d ex_sell_run by blast
qed

section \<open>The commission field of a sell trade\<close>

lemma ex_day2_sell_run: "execute_sells ex_crash_provider ex_day2_evaluated = Inr ex_day2_sold"
proof -
  have "\<not> isl (execute_sells ex_crash_provider ex_day2_evaluated)"
    by (simp add: day2_eval)
  then show ?thesis unfolding ex_day2_sold_def by simp
qed

text \<open>
  Claim C10. Every sell trade that \<^verbatim>\<open>_execute_sells\<close> appends is the record of the
  sale of a holding of the state the node started from, of the whole amount at the
  holding's current price: with \<open>total = amount * price\<close>, the field \<^verbatim>\<open>total\<close> holds
  \<open>total\<close>, the field \<^verbatim>\<open>commission\<close> holds the broker commission and the stamp tax
  together, \<open>max (total * 0.0003) 5 + total * 0.001\<close>, and the record has no
  \<^verbatim>\<open>stamp_tax\<close> key of its own. The trades appended are exactly the sells of the
  node, and the cash grows by the total minus the commission field of each of them: the
  field is the whole of the fees charged.
\<close>

theorem sell_trade_commission_includes_stamp_tax:
  assumes "execute_sells P s = Inr s'"
  shows "trade_history s' = trade_history s @ sell_trades s'
       \<and> cash s' = cash s + (\<Sum>t\<leftarrow>sell_trades s'. proceeds t - recorded_fees t)
       \<and> (\<forall>t\<in>set (sell_trades s'). \<exists>code h p.
             t_action t = Some ''sell'' \<and> t_code t = Some code
           \<and> holding_at s code = Some h \<and> h_current_price h = Some p
           \<and> t_amount t = Some (h_amount h) \<and> t_price t = Some p
           \<and> t_total t = Some (of_int (h_amount h) * p)
           \<and> t_commission t
               = Some (max (of_int (h_amount h) * p * 0.0003) 5 + of_int (h_amount h) * p * 0.001)
           \<and> t_stamp_tax t = None)"
proof -
  from execute_sells_Inr[OF assms] have
    st: "s' = s\<lparr> cash := cash s + (\<Sum>t\<leftarrow>sell_trades s'. sell_net_income (proceeds t)),
                  holdings := filter (\<lambda>ca. fst ca \<notin> codes_of (sell_trades s')) (holdings s),
                  sell_trades := sell_trades s',
                  trade_history := trade_history s @ sell_trades s' \<rparr>"
    and all: "\<forall>t\<in>set (sell_trades s'). sold_from P s (sell_analysis s) [] t" by auto
  have th: "trade_history s' = trade_history s @ sell_trades s'"
    by (subst st) simp
  have each: "\<exists>code h p.
             t_action t = Some ''sell'' \<and> t_code t = Some code
           \<and> holding_at s code = Some h \<and> h_current_price h = Some p
           \<and> t_amount t = Some (h_amount h) \<and> t_price t = Some p
           \<and> t_total t = Some (of_int (h_amount h) * p)
           \<and> t_commission t
               = Some (max (of_int (h_amount h) * p * 0.0003) 5 + of_int (h_amount h) * p * 0.001)
           \<and> t_stamp_tax t = None"
    and net: "sell_net_income (proceeds t) = proceeds t - recorded_fees t"
    if "t \<in> set (sell_trades s')" for t
  proof -
    from all that obtain code h p d where
      *: "holding_at s code = Some h" "h_current_price h = Some p"
         "t = sell_trade_record P (trade_date s) code h p d"
      unfolding sold_from_def by blast
    show "\<exists>code h p.
             t_action t = Some ''sell'' \<and> t_code t = Some code
           \<and> holding_at s code = Some h \<and> h_current_price h = Some p
           \<and> t_amount t = Some (h_amount h) \<and> t_price t = Some p
           \<and> t_total t = Some (of_int (h_amount h) * p)
           \<and> t_commission t
               = Some (max (of_int (h_amount h) * p * 0.0003) 5 + of_int (h_amount h) * p * 0.001)
           \<and> t_stamp_tax t = None"
      apply (rule exI[of _ code], rule exI[of _ h], rule exI[of _ p])
      using *
      by (simp add: sell_trade_record_def Let_def sell_commission_def sell_stamp_tax_def)
    show "sell_net_income (proceeds t) = proceeds t - recorded_fees t"
      unfolding *(3)
      by (simp add: sell_trade_record_def Let_def sell_net_income_def sell_commission_def
          sell_stamp_tax_def proceeds_def recorded_fees_def)
  qed
  have "(\<Sum>t\<leftarrow>sell_trades s'. sell_net_income (proceeds t))
          = (\<Sum>t\<leftarrow>sell_trades s'. proceeds t - recorded_fees t)"
    using net by (intro arg_cong[where f=sum_list] map_cong) auto
  moreover have "cash s' = cash s + (\<Sum>t\<leftarrow>sell_trades s'. sell_net_income (proceeds t))"
    by (subst st) simp
  ultimately have ca: "cash s' = cash s + (\<Sum>t\<leftarrow>sell_trades s'. proceeds t - recorded_fees t)"
    by simp
  from th ca each show ?thesis by blast
qed

theorem sell_trade_commission_includes_stamp_tax_witness:
  "execute_sells ex_provider ex_sell_state = Inr ex_sold_state
   \<and> sell_trades ex_sold_state = [ex_sell_trade]
   \<and> holding_at ex_sell_state ''000001.SZ'' = Some ex_holding
   \<and> h_amount ex_holding = 200 \<and> h_current_price ex_holding = Some 11
   \<and> t_total ex_sell_trade = Some 2200
   \<and> t_commission ex_sell_trade = Some 7.2
   \<and> t_stamp_tax ex_sell_trade = None
   \<and> cash ex_sold_state = cash ex_sell_state + (2200 - 7.2)
   \<and> execute_sells ex_crash_provider ex_day2_evaluated = Inr ex_day2_sold
   \<and> map t_amount (sell_trades ex_day2_sold) = [Some 100]
   \<and> map t_price (sell_trades ex_day2_sold) = [Some 0.01]
   \<and> map t_commission (sell_trades ex_day2_sold) = [Some 5.001]
   \<and> cash ex_day2_sold = cash ex_day2_evaluated + (1 - 5.001)"
proof -
  note thm1 = sell_trade_commission_includes_stamp_tax[OF ex_sell_run]
  note thm2 = sell_trade_commission_includes_stamp_tax[OF ex_day2_sell_run]
  have st: "sell_trades ex_sold_state = [ex_sell_trade]" by (simp add: ex_sold_state_def)
  have code: "t_code ex_sell_trade = Some ''000001.SZ''" by (simp add: ex_sell_trade_def)
  have hold: "holding_at ex_sell_state ''000001.SZ'' = Some ex_holding"
    by (simp add: holding_at_def ex_sell_state_def)
  have h: "h_amount ex_holding = 200" "h_current_price ex_holding = Some 11"
    by (simp_all add: ex_holding_def)
  from thm1 st obtain c hh p where
    *: "t_code ex_sell_trade = Some c" "holding_at ex_sell_state c = Some hh"
       "h_current_price hh = Some p" "t_total ex_sell_trade = Some (of_int (h_amount hh) * p)"
       "t_commission ex_sell_trade
          = Some (max (of_int (h_amount hh) * p * 0.0003) 5 + of_int (h_amount hh) * p * 0.001)"
       "t_stamp_tax ex_sell_trade = None"
    by auto
  from *(1) code have "c = ''000001.SZ''" by simp
  with *(2) hold have "hh = ex_holding" by simp
  with *(3) h have "p = 11" by simp
  with * h \<open>hh = ex_holding\<close> have t1: "t_total ex_sell_trade = Some 2200"
    "t_commission ex_sell_trade = Some 7.2" "t_stamp_tax ex_sell_trade = None"
    by simp_all
  from thm1 have "cash ex_sold_state
      = cash ex_sell_state + (\<Sum>t\<leftarrow>sell_trades ex_sold_state. proceeds t - recorded_fees t)"
    by blast
  with st t1 have c1: "cash ex_sold_state = cash ex_sell_state + (2200 - 7.2)"
    by (simp add: proceeds_def recorded_fees_def)
  have d2: "map t_amount (sell_trades ex_day2_sold) = [Some 100]"
    "map t_price (sell_trades ex_day2_sold) = [Some 0.01]"
    "map t_commission (sell_trades ex_day2_sold) = [Some 5.001]"
    "map t_total (sell_trades ex_day2_sold) = [Some 1]"
    by (simp_all add: day2_eval)
  from thm2 have "cash ex_day2_sold
      = cash ex_day2_evaluated + (\<Sum>t\<leftarrow>sell_trades ex_day2_sold. proceeds t - recorded_fees t)"
    by blast
  moreover from d2 obtain u where u: "sell_trades ex_day2_sold = [u]" by auto
  ultimately have c2: "cash ex_day2_sold = cash ex_day2_evaluated + (1 - 5.001)"
    using d2 by (simp add: proceeds_def recorded_fees_def)
  from ex_sell_run st hold h t1 c1 ex_day2_sell_run d2 c2 show ?thesis by simp
qed


section \<open>A day that fails\<close>

lemma run_single_day_restores_attributes:
  assumes "run_single_day C P E stop date A = (Some e, A')"
  shows "ag_cash A' = ag_cash A \<and> ag_holdings A' = ag_holdings A
       \<and> ag_total_assets A' = ag_total_assets A
       \<and> ag_trade_history A' = ag_trade_history A
       \<and> ag_daily_assets A' = ag_daily_assets A"
  using assms
  by (auto simp: run_single_day_def Let_def split: if_splits sum.splits prod.splits)

lemmas day_eval = ex_agent_after_def run_single_day_def run_workflow_def and_then_def
  ex_agent_def ex_lot_a_def ex_lot_b_def ex_gap_provider_def ex_raw_sell_def ex_sell_env_def ex_cfg_def
  update_holdings_prices_def update_holding_def hold_days_of_def holdings_value_def holding_value_def
  evaluate_holdings_def forced_sells_def forced_sell_def fix_sell_decision_def str_or_def truthy_def
  code_by_name_def holding_at_def agent_holding_at_def
  execute_sells_def sell_holding_def sell_net_income_def sell_commission_def sell_stamp_tax_def
  sell_trade_record_def AList.delete_eq Let_def

text \<open>
  Claim C5 says that after a node has raised, every field of the agent equals its value
  before the day, the fields of each holding included. The snapshot copies the dictionary
  of holdings but not the holding objects, which \<^verbatim>\<open>_update_holdings_prices\<close> changes in
  place. In the example the second sell divides by a cost of zero and raises; cash, the
  set of holdings, total assets, trades and daily records are restored, but the first
  holding keeps the new price, the new profit percentage and a day count of 2 instead of
  1, and the second a day count of 4 instead of 3.
\<close>

theorem failed_day_keeps_updated_holdings:
  "run_single_day ex_cfg ex_gap_provider ex_sell_env False ''20250107'' ex_agent
     = (Some ZeroDivisionError, ex_agent_after)
   \<and> ag_cash ex_agent_after = ag_cash ex_agent
   \<and> ag_holdings ex_agent_after = ag_holdings ex_agent
   \<and> ag_total_assets ex_agent_after = ag_total_assets ex_agent
   \<and> ag_trade_history ex_agent_after = ag_trade_history ex_agent
   \<and> ag_daily_assets ex_agent_after = ag_daily_assets ex_agent
   \<and> agent_holding_at ex_agent ''000001.SZ'' = Some ex_lot_a
   \<and> agent_holding_at ex_agent_after ''000001.SZ''
       = Some (ex_lot_a\<lparr> h_current_price := Some 10.5, h_profit_pct := Some 5,
                          h_hold_days := Some 2 \<rparr>)
   \<and> agent_holding_at ex_agent ''000002.SZ'' = Some ex_lot_b
   \<and> agent_holding_at ex_agent_after ''000002.SZ'' = Some (ex_lot_b\<lparr> h_hold_days := Some 4 \<rparr>)
   \<and> h_hold_days ex_lot_a = Some 1 \<and> h_current_price ex_lot_a = Some 10
   \<and> h_hold_days ex_lot_b = Some 3"
proof -
  have "fst (run_single_day ex_cfg ex_gap_provider ex_sell_env False ''20250107'' ex_agent)
          = Some ZeroDivisionError"
    by (simp add: day_eval)
  then have run: "run_single_day ex_cfg ex_gap_provider ex_sell_env False ''20250107'' ex_agent
     = (Some ZeroDivisionError, ex_agent_after)"
    unfolding ex_agent_after_def by (metis prod.collapse)
  have a: "agent_holding_at ex_agent ''000001.SZ'' = Some ex_lot_a"
       "agent_holding_at ex_agent ''000002.SZ'' = Some ex_lot_b"
    by (simp_all add: agent_holding_at_def ex_agent_def)
  have b: "agent_holding_at ex_agent_after ''000001.SZ''
       = Some (ex_lot_a\<lparr> h_current_price := Some 10.5, h_profit_pct := Some 5,
                          h_hold_days := Some 2 \<rparr>)"
    by (simp add: day_eval)
  have c: "agent_holding_at ex_agent_after ''000002.SZ'' = Some (ex_lot_b\<lparr> h_hold_days := Some 4 \<rparr>)"
    by (simp add: day_eval)
  have d: "h_hold_days ex_lot_a = Some 1" "h_current_price ex_lot_a = Some 10"
          "h_hold_days ex_lot_b = Some 3"
    by (simp_all add: ex_lot_a_def ex_lot_b_def)
  from run run_single_day_restores_attributes[OF run] a b c d show ?thesis by simp
qed

section \<open>Detecting corrupted daily records\<close>












section \<open>Rolling back to a date\<close>

lemma install_view:
  "install hs n hp = (al, hp', n') \<Longrightarrow>
     (\<forall>a<n. hp' a = hp a)
   \<and> List.map_filter (\<lambda>ca. map_option (Pair (fst ca)) (hp' (snd ca))) al = hs"
proof (induction hs arbitrary: n hp al)
  case Nil
  then show ?case by (simp add: List.map_filter_simps)
next
  case (Cons ch hs)
  obtain c h where ch: "ch = (c, h)" by (cases ch)
  obtain al1 where i: "install hs (Suc n) (hp(n \<mapsto> h)) = (al1, hp', n')" and al: "al = (c, n) # al1"
    using Cons.prems unfolding ch by (auto split: prod.splits)
  from Cons.IH[OF i] have ih: "\<forall>a<Suc n. hp' a = (hp(n \<mapsto> h)) a"
    "List.map_filter (\<lambda>ca. map_option (Pair (fst ca)) (hp' (snd ca))) al1 = hs" by auto
  from ih(1) have "hp' n = Some h" by simp
  moreover from ih(1) have "\<forall>a<n. hp' a = hp a" by simp
  ultimately show ?case using ih(2) unfolding al ch by (simp add: List.map_filter_simps)
qed

lemma with_holdings_view [simp]: "agent_view (with_holdings hs A) = hs"
proof -
  obtain al hp n where i: "install hs (ag_next_addr A) (ag_heap A) = (al, hp, n)"
    by (cases "install hs (ag_next_addr A) (ag_heap A)")
  from install_view[OF i] show ?thesis
    by (simp add: agent_view_def with_holdings_def i)
qed

lemma with_holdings_fields [simp]:
  "ag_cash (with_holdings hs A) = ag_cash A"
  "ag_total_assets (with_holdings hs A) = ag_total_assets A"
  "ag_daily_assets (with_holdings hs A) = ag_daily_assets A"
  "ag_trade_history (with_holdings hs A) = ag_trade_history A"
  "ag_initial_capital (with_holdings hs A) = ag_initial_capital A"
  by (simp_all add: with_holdings_def split: prod.splits)













end
